theory Spec2Isabelle
  imports Complex_Main "HOL-Library.Code_Target_Nat"
begin

section \<open>JavaScript values shared by the models\<close>

text \<open>
  An environment variable read through \<open>process.env\<close> is a string or \<open>undefined\<close>;
  in a condition it counts as true when it is set and not the empty string.
\<close>

definition truthy_str :: "string option \<Rightarrow> bool" where
  "truthy_str v = (case v of None \<Rightarrow> False | Some s \<Rightarrow> s \<noteq> [])"

text \<open>
  A value caught by a \<open>catch\<close> clause: an instance of \<open>Error\<close> carrying its
  message (a \<open>TypeError\<close> raised by the engine is one, and the text given to it here
  stands for the engine's message), or a thrown value that is not an \<open>Error\<close> (wallet
  extensions reject with plain objects).
\<close>

datatype thrown = Error string | TypeError string | NonError

text \<open>\<open>error instanceof Error ? error.message : dflt\<close>.\<close>

fun message_or :: "string \<Rightarrow> thrown \<Rightarrow> string" where
  "message_or dflt (Error m) = m"
| "message_or dflt (TypeError m) = m"
| "message_or dflt NonError = dflt"

text \<open>\<open>s.startsWith(p)\<close> and \<open>s.includes(p)\<close>.\<close>

definition startsWith :: "string \<Rightarrow> string \<Rightarrow> bool" where
  "startsWith s p = (take (length p) s = p)"

fun includes_str :: "string \<Rightarrow> string \<Rightarrow> bool" where
  "includes_str [] p = (p = [])"
| "includes_str (c # cs) p = (startsWith (c # cs) p \<or> includes_str cs p)"

text \<open>
  The decimal text of a non-negative integer and of an integer, as a template literal
  or \<open>toString()\<close> prints an integral number.
\<close>

definition digit_char :: "nat \<Rightarrow> char" where
  "digit_char d = char_of (48 + d)"

fun nat_to_string :: "nat \<Rightarrow> string" where
  "nat_to_string n =
     (if n < 10 then [digit_char n] else nat_to_string (n div 10) @ [digit_char (n mod 10)])"

definition int_to_string :: "int \<Rightarrow> string" where
  "int_to_string i = (if i < 0 then CHR ''-'' # nat_to_string (nat (- i)) else nat_to_string (nat i))"

text \<open>
  A response of \<open>fetch\<close>, with what \<open>response.text()\<close> and \<open>response.json()\<close>
  give: reading the body can reject, and \<open>json()\<close> rejects when it is not JSON.
\<close>

record 'b http_response =
  ok :: bool
  status :: nat
  statusText :: string
  text_body :: "thrown + string"
  json_body :: "thrown + 'b"

section \<open>aiCategorization.ts: the category table\<close>

text \<open>An icon is an emoji, kept as the bytes of its UTF-8 encoding.\<close>

type_synonym icon = string

record category_config =
  name :: string
  description :: string
  icon :: icon
  color :: string

definition AVAILABLE_CATEGORIES :: "category_config list" where
  "AVAILABLE_CATEGORIES =
   [ \<lparr> name = ''Payments & Purchases'',
       description = ''Shopping, bills, invoices, retail purchases'',
       icon = [CHR 0xF0, CHR 0x9F, CHR 0x92, CHR 0xB3], color = ''bg-blue-100 border-blue-300 text-blue-800'' \<rparr>,
     \<lparr> name = ''Gifts & Tips'',
       description = ''Gifts, donations, tips, rewards, presents'',
       icon = [CHR 0xF0, CHR 0x9F, CHR 0x8E, CHR 0x81], color = ''bg-pink-100 border-pink-300 text-pink-800'' \<rparr>,
     \<lparr> name = ''Business & Work'',
       description = ''Salary, work-related, business, contracts, services'',
       icon = [CHR 0xF0, CHR 0x9F, CHR 0x92, CHR 0xBC], color = ''bg-indigo-100 border-indigo-300 text-indigo-800'' \<rparr>,
     \<lparr> name = ''Family & Friends'',
       description = ''Personal relationships, family, friends, loans'',
       icon = [CHR 0xF0, CHR 0x9F, CHR 0x91, CHR 0xA8, CHR 0xE2, CHR 0x80, CHR 0x8D, CHR 0xF0, CHR 0x9F, CHR 0x91, CHR 0xA9, CHR 0xE2, CHR 0x80, CHR 0x8D, CHR 0xF0, CHR 0x9F, CHR 0x91, CHR 0xA7, CHR 0xE2, CHR 0x80, CHR 0x8D, CHR 0xF0, CHR 0x9F, CHR 0x91, CHR 0xA6],
       color = ''bg-yellow-100 border-yellow-300 text-yellow-800'' \<rparr>,
     \<lparr> name = ''Food & Dining'',
       description = ''Restaurants, food delivery, meals, dining'',
       icon = [CHR 0xF0, CHR 0x9F, CHR 0x8D, CHR 0xBD, CHR 0xEF, CHR 0xB8, CHR 0x8F], color = ''bg-orange-100 border-orange-300 text-orange-800'' \<rparr>,
     \<lparr> name = ''Transportation'',
       description = ''Travel, transport, gas, parking, rideshare'',
       icon = [CHR 0xF0, CHR 0x9F, CHR 0x9A, CHR 0x97], color = ''bg-green-100 border-green-300 text-green-800'' \<rparr>,
     \<lparr> name = ''Entertainment'',
       description = ''Movies, games, sports, hobbies, subscriptions'',
       icon = [CHR 0xF0, CHR 0x9F, CHR 0x8E, CHR 0xAE], color = ''bg-purple-100 border-purple-300 text-purple-800'' \<rparr>,
     \<lparr> name = ''Testing & Development'',
       description = ''Testing, development, demo transactions'',
       icon = [CHR 0xF0, CHR 0x9F, CHR 0xA7, CHR 0xAA], color = ''bg-gray-100 border-gray-300 text-gray-800'' \<rparr>,
     \<lparr> name = ''Other'',
       description = ''Uncategorized or unclear transactions'',
       icon = [CHR 0xF0, CHR 0x9F, CHR 0x92, CHR 0xAC], color = ''bg-gray-100 border-gray-300 text-gray-800'' \<rparr> ]"

section \<open>aiCategorization.ts: categorizeTransactionsWithAI\<close>

text \<open>
  One element of the \<open>data\<close> array the route \<open>/api/categorize\<close> answers with, and the
  answer itself (\<open>{ success, data, error }\<close>). \<open>data\<close> is \<open>None\<close> when the field is
  missing or not an array (then \<open>aiResults.map\<close> raises a \<open>TypeError\<close>); an element
  is \<open>None\<close> when it is \<open>null\<close> (then reading \<open>result.category\<close> raises one).
\<close>

record ai_result =
  transactionIndex :: int
  r_category :: string
  r_confidence :: rat
  r_reasoning :: string

record api_payload =
  success :: bool
  data :: "ai_result option list option"
  error :: "string option"

record AICategory =
  category :: string
  confidence :: rat
  reasoning :: string
  cat_icon :: icon
  cat_color :: string

record CategorizedTransaction =
  transactionId :: string
  ai_category :: AICategory

record categorize_request =
  url :: string
  http_method :: string
  body_messages :: "string list"
  body_provider :: string

text \<open>\<open>a || b\<close> on the results of two \<open>find\<close> calls.\<close>

definition or_else :: "'a option \<Rightarrow> 'a option \<Rightarrow> 'a option" where
  "or_else a b = (case a of Some x \<Rightarrow> Some x | None \<Rightarrow> b)"

text \<open>The callback of \<open>aiResults.map\<close>.\<close>

definition convert_result :: "ai_result option \<Rightarrow> thrown + CategorizedTransaction" where
  "convert_result res =
     (case res of
        None \<Rightarrow> Inl (TypeError ''Cannot read properties of null (reading category)'')
      | Some result \<Rightarrow>
          (case or_else (find (\<lambda>cat. name cat = r_category result) AVAILABLE_CATEGORIES)
                        (find (\<lambda>cat. name cat = ''Other'') AVAILABLE_CATEGORIES) of
             None \<Rightarrow> Inl (TypeError ''Cannot read properties of undefined (reading icon)'')
           | Some categoryConfig \<Rightarrow>
               Inr \<lparr> transactionId = ''tx_'' @ int_to_string (transactionIndex result),
                     ai_category = \<lparr> category = r_category result,
                                      confidence = r_confidence result,
                                      reasoning = r_reasoning result,
                                      cat_icon = icon categoryConfig,
                                      cat_color = color categoryConfig \<rparr> \<rparr>))"

text \<open>\<open>Array.prototype.map\<close> with a callback that may throw: the first throw ends it.\<close>

fun map_throwing :: "('a \<Rightarrow> thrown + 'b) \<Rightarrow> 'a list \<Rightarrow> thrown + 'b list" where
  "map_throwing f [] = Inr []"
| "map_throwing f (x # xs) =
     (case f x of
        Inl e \<Rightarrow> Inl e
      | Inr y \<Rightarrow> (case map_throwing f xs of Inl e \<Rightarrow> Inl e | Inr ys \<Rightarrow> Inr (y # ys)))"

text \<open>The body of the \<open>try\<close> block, from the answer of \<open>fetch\<close> on.\<close>

definition categorize_try ::
  "(thrown + api_payload http_response) \<Rightarrow> thrown + CategorizedTransaction list" where
  "categorize_try fetched =
     (case fetched of
        Inl e \<Rightarrow> Inl e
      | Inr response \<Rightarrow>
          if \<not> ok response then
            (case text_body response of
               Inl e \<Rightarrow> Inl e
             | Inr errorText \<Rightarrow>
                 Inl (Error (''API error: '' @ nat_to_string (status response) @ '' ''
                             @ statusText response @ ''. '' @ errorText)))
          else
            (case json_body response of
               Inl e \<Rightarrow> Inl e
             | Inr responseData \<Rightarrow>
                 if \<not> success responseData then
                   Inl (Error (if truthy_str (error responseData)
                               then the (error responseData) else ''API request failed''))
                 else
                   (case data responseData of
                      None \<Rightarrow> Inl (TypeError ''aiResults.map is not a function'')
                    | Some aiResults \<Rightarrow> map_throwing convert_result aiResults)))"

text \<open>The fallback entry built by the \<open>catch\<close> clause for the message at \<open>index\<close>.\<close>

definition fallback_entry :: "string \<Rightarrow> nat \<Rightarrow> CategorizedTransaction" where
  "fallback_entry errorMessage index =
     \<lparr> transactionId = ''tx_'' @ nat_to_string (index + 1),
       ai_category = \<lparr> category = ''Other'',
                        confidence = 0,
                        reasoning = ''AI categorization failed: '' @ errorMessage,
                        cat_icon = [CHR 0xF0, CHR 0x9F, CHR 0x92, CHR 0xAC],
                        cat_color = ''bg-gray-100 border-gray-300 text-gray-800'' \<rparr> \<rparr>"

text \<open>The request that \<open>fetch('/api/categorize', ...)\<close> sends.\<close>

definition categorize_request :: "string list \<Rightarrow> string \<Rightarrow> categorize_request" where
  "categorize_request messages provider =
     \<lparr> url = ''/api/categorize'', http_method = ''POST'',
       body_messages = messages, body_provider = provider \<rparr>"

text \<open>
  The function takes the network as \<open>fetch\<close>, from the request to its outcome, and
  returns the requests it made together with its result. Its result type has no error
  branch: the \<open>catch\<close> clause covers the whole \<open>try\<close> block and raises nothing itself.
\<close>

definition categorizeTransactionsWithAI ::
  "(categorize_request \<Rightarrow> thrown + api_payload http_response) \<Rightarrow> string list \<Rightarrow> string
     \<Rightarrow> categorize_request list \<times> CategorizedTransaction list" where
  "categorizeTransactionsWithAI fetch messages provider =
     (if length messages = 0 then ([], [])
      else
        let request = categorize_request messages provider
        in (case categorize_try (fetch request) of
              Inr categorizedTransactions \<Rightarrow> ([request], categorizedTransactions)
            | Inl e \<Rightarrow>
                let errorMessage = message_or ''AI categorization failed'' e
                in ([request], map (fallback_entry errorMessage) [0 ..< length messages])))"

text \<open>
  The failures of the request, in the words of the specification: the request fails, the
  status is not ok, the answer reports \<open>success: false\<close>, or the payload cannot be
  processed (the body is not JSON, \<open>data\<close> is not an array, or an element is \<open>null\<close>).
\<close>

definition categorize_request_fails :: "(thrown + api_payload http_response) \<Rightarrow> bool" where
  "categorize_request_fails fetched =
     (case fetched of
        Inl e \<Rightarrow> True
      | Inr response \<Rightarrow>
          \<not> ok response
          \<or> (case json_body response of
                Inl e \<Rightarrow> True
              | Inr responseData \<Rightarrow>
                  \<not> success responseData
                  \<or> (case data responseData of None \<Rightarrow> True | Some rs \<Rightarrow> None \<in> set rs)))"

text \<open>An answer of the route that names a category outside the table and one inside.\<close>

definition groceries_response :: "api_payload http_response" where
  "groceries_response =
     \<lparr> ok = True, status = 200, statusText = ''OK'', text_body = Inr [],
       json_body = Inr \<lparr> success = True,
                          data = Some [Some \<lparr> transactionIndex = 1, r_category = ''Groceries'',
                                               r_confidence = 9 / 10, r_reasoning = ''food shop'' \<rparr>,
                                       Some \<lparr> transactionIndex = 2, r_category = ''Food & Dining'',
                                               r_confidence = 1 / 2, r_reasoning = ''a meal'' \<rparr>],
                          error = None \<rparr> \<rparr>"

section \<open>aiCategorization.ts: provider discovery\<close>


record ai_env =
  NEXT_PUBLIC_AI_API_KEY :: "string option"
  NEXT_PUBLIC_OPENAI_API_KEY :: "string option"
  NEXT_PUBLIC_GEMINI_API_KEY :: "string option"
  NEXT_PUBLIC_ANTHROPIC_API_KEY :: "string option"
  NEXT_PUBLIC_GROQ_API_KEY :: "string option"

text \<open>\<open>push_if c x xs\<close> is the statement \<open>if (c) { xs.push(x) }\<close>.\<close>

definition push_if :: "bool \<Rightarrow> 'a \<Rightarrow> 'a list \<Rightarrow> 'a list" where
  "push_if c x xs = (if c then xs @ [x] else xs)"

definition getAvailableProviders :: "ai_env \<Rightarrow> string list" where
  "getAvailableProviders env =
     (let providers = [];
          providers = push_if (truthy_str (NEXT_PUBLIC_AI_API_KEY env)
                               \<or> truthy_str (NEXT_PUBLIC_OPENAI_API_KEY env)) ''openai'' providers;
          providers = push_if (truthy_str (NEXT_PUBLIC_GEMINI_API_KEY env)) ''gemini'' providers;
          providers = push_if (truthy_str (NEXT_PUBLIC_ANTHROPIC_API_KEY env)) ''anthropic'' providers;
          providers = push_if (truthy_str (NEXT_PUBLIC_GROQ_API_KEY env)
                               \<or> truthy_str (NEXT_PUBLIC_AI_API_KEY env)) ''groq'' providers;
          providers = push_if (length providers = 0) ''openai'' providers
      in providers)"

definition isAICategorationAvailable :: "ai_env \<Rightarrow> bool" where
  "isAICategorationAvailable env = (length (getAvailableProviders env) > 0)"

text \<open>The configuration in which no key is set at all.\<close>

definition no_keys :: ai_env where
  "no_keys = \<lparr> NEXT_PUBLIC_AI_API_KEY = None, NEXT_PUBLIC_OPENAI_API_KEY = None,
               NEXT_PUBLIC_GEMINI_API_KEY = None, NEXT_PUBLIC_ANTHROPIC_API_KEY = None,
               NEXT_PUBLIC_GROQ_API_KEY = None \<rparr>"

section \<open>JavaScript numbers\<close>

text \<open>
  A JavaScript number is an IEEE double, and its arithmetic rounds. The models do not
  compute with numbers themselves: they take the number primitives that the code uses
  from the runtime, over a type \<open>'d\<close> of its numbers, so that what they say holds for
  whatever the runtime computes. \<open>number_of i\<close> is the number that the integer
  literal \<open>i\<close> denotes; \<open>num_add\<close>, \<open>num_sub\<close>, \<open>num_mul\<close> and \<open>num_div\<close> are \<open>+\<close>,
  \<open>-\<close>, \<open>*\<close> and \<open>/\<close>; \<open>num_le\<close> and \<open>num_less\<close> are \<open><=\<close> and \<open><\<close>;
  \<open>number_toString x\<close> is \<open>x.toString()\<close> and \<open>toFixed x n\<close> is \<open>x.toFixed(n)\<close>.
\<close>

record 'd js_numbers =
  number_of :: "int \<Rightarrow> 'd"
  parseInt :: "string \<Rightarrow> 'd"
  parseFloat :: "string \<Rightarrow> 'd"
  num_add :: "'d \<Rightarrow> 'd \<Rightarrow> 'd"
  num_sub :: "'d \<Rightarrow> 'd \<Rightarrow> 'd"
  num_mul :: "'d \<Rightarrow> 'd \<Rightarrow> 'd"
  num_div :: "'d \<Rightarrow> 'd \<Rightarrow> 'd"
  Math_abs :: "'d \<Rightarrow> 'd"
  num_le :: "'d \<Rightarrow> 'd \<Rightarrow> bool"
  num_less :: "'d \<Rightarrow> 'd \<Rightarrow> bool"
  number_toString :: "'d \<Rightarrow> string"
  toFixed :: "'d \<Rightarrow> nat \<Rightarrow> string"

text \<open>
  Decimal numerals (non-empty strings of the digits 0 to 9) and their values, and the
  exact decimal text of \<open>n\<close> millionths: no trailing zeros, no fraction when there is
  none.
\<close>

definition is_digit :: "char \<Rightarrow> bool" where
  "is_digit c = (c \<in> set ''0123456789'')"

definition is_numeral :: "string \<Rightarrow> bool" where
  "is_numeral s = (s \<noteq> [] \<and> list_all is_digit s)"

definition decimal_value :: "string \<Rightarrow> nat" where
  "decimal_value s = foldl (\<lambda>acc c. acc * 10 + (of_char c - 48)) 0 s"

definition fraction_digits :: "nat \<Rightarrow> string" where
  "fraction_digits f =
     (let padded = replicate (6 - length (nat_to_string f)) CHR ''0'' @ nat_to_string f
      in rev (dropWhile (\<lambda>c. c = CHR ''0'') (rev padded)))"

definition millionths_text :: "nat \<Rightarrow> string" where
  "millionths_text n =
     (let whole = n div 1000000; f = n mod 1000000
      in if f = 0 then nat_to_string whole
         else nat_to_string whole @ ''.'' @ fraction_digits f)"

text \<open>
  Doubles are exact on integers far beyond \<open>10 ^ 15\<close>, and a quotient by a million with at
  most 15 significant digits prints as its exact decimal text. \<open>exact_on_integers\<close>
  says this of a runtime, for the non-negative integers below \<open>10 ^ 15\<close>: sums,
  differences and absolute values of such integers are the integers they should be, a
  numeral is read as its value, and a millionth of such an integer prints exactly.
\<close>

definition exact_on_integers :: "'d js_numbers \<Rightarrow> bool" where
  "exact_on_integers js \<longleftrightarrow>
     (\<forall>x y. 0 \<le> x \<and> 0 \<le> y \<and> x + y < 10 ^ 15 \<longrightarrow>
        num_add js (number_of js x) (number_of js y) = number_of js (x + y))
   \<and> (\<forall>x y. 0 \<le> x \<and> x < 10 ^ 15 \<and> 0 \<le> y \<and> y < 10 ^ 15 \<longrightarrow>
        num_sub js (number_of js x) (number_of js y) = number_of js (x - y))
   \<and> (\<forall>x. \<bar>x\<bar> < 10 ^ 15 \<longrightarrow> Math_abs js (number_of js x) = number_of js \<bar>x\<bar>)
   \<and> (\<forall>s. is_numeral s \<and> int (decimal_value s) < 10 ^ 15 \<longrightarrow>
        parseInt js s = number_of js (int (decimal_value s)))
   \<and> (\<forall>x. 0 \<le> x \<and> x < 10 ^ 15 \<longrightarrow>
        number_toString js (num_div js (number_of js x) (number_of js 1000000))
          = millionths_text (nat x))"

section \<open>blockchain.ts: the explorer's answers\<close>

datatype network = preprod | mainnet

definition network_name :: "network \<Rightarrow> string" where
  "network_name n = (case n of preprod \<Rightarrow> ''preprod'' | mainnet \<Rightarrow> ''mainnet'')"

text \<open>
  The JSON of \<open>/txs/{hash}/utxos\<close>. A field the scan iterates or searches is \<open>None\<close>
  when it is missing or not an array, where the scan raises a \<open>TypeError\<close>.
\<close>

record amount_entry =
  unit :: string
  quantity :: string

record utxo_entry =
  address :: string
  amount :: "amount_entry list option"

record tx_utxos =
  inputs :: "utxo_entry list option"
  outputs :: "utxo_entry list option"

text \<open>An element of \<open>/addresses/{address}/transactions\<close>, and the fields read of the others.\<close>

record address_tx =
  tx_hash :: string
  block_time :: int
  block_height :: int

record BlockchainTransaction =
  fees :: string

record latest_block =
  height :: int

text \<open>Metadata values are JSON; Cardano metadata has integers, strings, lists and maps.\<close>

datatype json =
    JNull
  | JBool bool
  | JNumber int
  | JString string
  | JArray "json list"
  | JObject "(string \<times> json) list"

record TransactionMetadata =
  label :: string
  json_metadata :: json

text \<open>
  The explorer, as the answers it gives to the requests of this module. An answer
  depends on the request only.
\<close>

record explorer =
  get_address_transactions ::
    "network \<Rightarrow> string \<Rightarrow> nat \<Rightarrow> nat \<Rightarrow> thrown + address_tx list http_response"
  get_tx :: "network \<Rightarrow> string \<Rightarrow> thrown + BlockchainTransaction http_response"
  get_tx_metadata :: "network \<Rightarrow> string \<Rightarrow> thrown + TransactionMetadata list http_response"
  get_tx_utxos :: "network \<Rightarrow> string \<Rightarrow> thrown + tx_utxos http_response"
  get_blocks_latest :: "network \<Rightarrow> thrown + latest_block http_response"

datatype tx_status = Success | Failed | Pending

record ParsedTransaction =
  p_id :: string
  p_hash :: string
  p_timestamp :: int
  p_amount :: string
  p_recipient :: "string option"
  p_sender :: "string option"
  p_message :: "string option"
  p_status :: tx_status
  p_fees :: string
  p_network :: string
  p_blockHeight :: int
  p_confirmations :: "int option"
  p_errorMessage :: "string option"

section \<open>blockchain.ts: the fetch helpers\<close>

definition fetchTransactionDetails ::
  "explorer \<Rightarrow> string \<Rightarrow> network \<Rightarrow> thrown + BlockchainTransaction" where
  "fetchTransactionDetails ex txHash net =
     (case get_tx ex net txHash of
        Inl e \<Rightarrow> Inl e
      | Inr response \<Rightarrow>
          if \<not> ok response
          then Inl (Error (''Failed to fetch transaction details: '' @ nat_to_string (status response)))
          else json_body response)"

text \<open>
  Inside its \<open>try\<close> the function returns \<open>response.json()\<close> without awaiting it, so a
  body that is not JSON rejects past the \<open>catch\<close>; every other failure gives \<open>[]\<close>.
\<close>

definition fetchTransactionMetadata ::
  "explorer \<Rightarrow> string \<Rightarrow> network \<Rightarrow> thrown + TransactionMetadata list" where
  "fetchTransactionMetadata ex txHash net =
     (case get_tx_metadata ex net txHash of
        Inl e \<Rightarrow> Inr []
      | Inr response \<Rightarrow>
          if \<not> ok response then Inr []
          else json_body response)"

definition getCurrentBlockHeight :: "explorer \<Rightarrow> network \<Rightarrow> thrown + int" where
  "getCurrentBlockHeight ex net =
     (case get_blocks_latest ex net of
        Inl e \<Rightarrow> Inl e
      | Inr response \<Rightarrow>
          if \<not> ok response
          then Inl (Error (''Failed to fetch current block height: '' @ nat_to_string (status response)))
          else (case json_body response of Inl e \<Rightarrow> Inl e | Inr block \<Rightarrow> Inr (height block)))"

definition fetchTransactionUTXOs :: "explorer \<Rightarrow> string \<Rightarrow> network \<Rightarrow> thrown + tx_utxos" where
  "fetchTransactionUTXOs ex txHash net =
     (case get_tx_utxos ex net txHash of
        Inl e \<Rightarrow> Inl e
      | Inr response \<Rightarrow>
          if \<not> ok response
          then Inl (Error (''Failed to fetch transaction UTXOs: '' @ nat_to_string (status response)))
          else json_body response)"

section \<open>blockchain.ts: calculateAccurateTransactionAmount\<close>

text \<open>
  One of the two loops over \<open>utxos.outputs\<close> and \<open>utxos.inputs\<close>: an entry at the
  address adds the quantity of the first amount whose unit is \<open>lovelace\<close>, when it has
  one. \<open>running\<close> is the current \<open>receivedAmount\<close> or \<open>spentAmount\<close>.
\<close>

fun sum_lovelace ::
  "'d js_numbers \<Rightarrow> utxo_entry list \<Rightarrow> string \<Rightarrow> 'd \<Rightarrow> thrown + 'd" where
  "sum_lovelace js [] addr running = Inr running"
| "sum_lovelace js (entry # rest) addr running =
     (if address entry = addr then
        (case amount entry of
           None \<Rightarrow> Inl (TypeError ''Cannot read properties of undefined (reading find)'')
         | Some amounts \<Rightarrow>
             (case find (\<lambda>a. unit a = ''lovelace'') amounts of
                Some adaAmount \<Rightarrow>
                  sum_lovelace js rest addr (num_add js running (parseInt js (quantity adaAmount)))
              | None \<Rightarrow> sum_lovelace js rest addr running))
      else sum_lovelace js rest addr running)"

text \<open>The statements of the \<open>try\<close> block after the fetch.\<close>

definition scan_utxos :: "'d js_numbers \<Rightarrow> tx_utxos \<Rightarrow> string \<Rightarrow> thrown + string" where
  "scan_utxos js utxos addr =
     (case outputs utxos of
        None \<Rightarrow> Inl (TypeError ''utxos.outputs is not iterable'')
      | Some outs \<Rightarrow>
          (case sum_lovelace js outs addr (number_of js 0) of
             Inl e \<Rightarrow> Inl e
           | Inr receivedAmount \<Rightarrow>
               (case inputs utxos of
                  None \<Rightarrow> Inl (TypeError ''utxos.inputs is not iterable'')
                | Some ins \<Rightarrow>
                    (case sum_lovelace js ins addr (number_of js 0) of
                       Inl e \<Rightarrow> Inl e
                     | Inr spentAmount \<Rightarrow>
                         let netAmount = num_sub js receivedAmount spentAmount
                         in Inr (number_toString js
                                   (num_div js (Math_abs js netAmount) (number_of js 1000000)))))))"

definition calculate_try ::
  "'d js_numbers \<Rightarrow> explorer \<Rightarrow> string \<Rightarrow> string \<Rightarrow> network \<Rightarrow> thrown + string" where
  "calculate_try js ex txHash addr net =
     (case fetchTransactionUTXOs ex txHash net of
        Inl e \<Rightarrow> Inl e
      | Inr utxos \<Rightarrow> scan_utxos js utxos addr)"

definition calculateAccurateTransactionAmount ::
  "'d js_numbers \<Rightarrow> explorer \<Rightarrow> string \<Rightarrow> string \<Rightarrow> network \<Rightarrow> string" where
  "calculateAccurateTransactionAmount js ex txHash addr net =
     (case calculate_try js ex txHash addr net of
        Inr amountText \<Rightarrow> amountText
      | Inl e \<Rightarrow> ''0'')"

text \<open>
  The amounts that the specification sums: every amount with unit \<open>lovelace\<close> of the
  entries at the address, in their order. And the amounts that the scan reads: of each
  entry at the address, the first amount with unit \<open>lovelace\<close>.
\<close>

definition amounts_of :: "utxo_entry \<Rightarrow> amount_entry list" where
  "amounts_of entry = (case amount entry of Some amounts \<Rightarrow> amounts | None \<Rightarrow> [])"

definition all_lovelace_amounts :: "utxo_entry list \<Rightarrow> string \<Rightarrow> amount_entry list" where
  "all_lovelace_amounts entries addr =
     filter (\<lambda>a. unit a = ''lovelace'')
       (concat (map amounts_of (filter (\<lambda>entry. address entry = addr) entries)))"

definition first_lovelace_amounts :: "utxo_entry list \<Rightarrow> string \<Rightarrow> amount_entry list" where
  "first_lovelace_amounts entries addr =
     concat (map (\<lambda>entry. case find (\<lambda>a. unit a = ''lovelace'') (amounts_of entry) of
                             Some a \<Rightarrow> [a]
                           | None \<Rightarrow> [])
                 (filter (\<lambda>entry. address entry = addr) entries))"

text \<open>
  The sum of the quantities of a list of amounts: as the runtime adds them, from 0 and in
  their order, and as the integer it is when the quantities are numerals.
\<close>

definition runtime_sum :: "'d js_numbers \<Rightarrow> amount_entry list \<Rightarrow> 'd" where
  "runtime_sum js amounts =
     foldl (num_add js) (number_of js 0) (map (\<lambda>a. parseInt js (quantity a)) amounts)"

definition exact_sum :: "amount_entry list \<Rightarrow> int" where
  "exact_sum amounts = sum_list (map (\<lambda>a. int (decimal_value (quantity a))) amounts)"

definition numeral_quantities :: "amount_entry list \<Rightarrow> bool" where
  "numeral_quantities amounts = list_all (\<lambda>a. is_numeral (quantity a)) amounts"

text \<open>
  \<open>amounts_present\<close>: every entry at the address has its amount list.
  \<open>single_lovelace\<close>: no amount list of an entry at the address has two lovelace amounts.
\<close>

definition amounts_present :: "utxo_entry list \<Rightarrow> string \<Rightarrow> bool" where
  "amounts_present entries addr =
     list_all (\<lambda>entry. address entry = addr \<longrightarrow> amount entry \<noteq> None) entries"

definition single_lovelace :: "utxo_entry list \<Rightarrow> string \<Rightarrow> bool" where
  "single_lovelace entries addr =
     list_all (\<lambda>entry. address entry = addr \<longrightarrow>
                 length (filter (\<lambda>a. unit a = ''lovelace'') (amounts_of entry)) \<le> 1) entries"

section \<open>blockchain.ts: extractMessageFromMetadata\<close>

definition js_truthy :: "json \<Rightarrow> bool" where
  "js_truthy v =
     (case v of
        JNull \<Rightarrow> False
      | JBool b \<Rightarrow> b
      | JNumber n \<Rightarrow> n \<noteq> 0
      | JString s \<Rightarrow> s \<noteq> []
      | JArray xs \<Rightarrow> True
      | JObject kvs \<Rightarrow> True)"

text \<open>
  \<open>v.key\<close> on a value that is not \<open>null\<close>: the member of an object (the last one, when
  the JSON text repeats the key), \<open>undefined\<close> (\<open>None\<close>) otherwise.
\<close>

definition get_prop :: "json \<Rightarrow> string \<Rightarrow> json option" where
  "get_prop v key = (case v of JObject kvs \<Rightarrow> map_of (rev kvs) key | _ \<Rightarrow> None)"

text \<open>
  \<open>String(v)\<close> and \<open>xs.join(sep)\<close>: \<open>join\<close> prints \<open>null\<close> as the empty string and
  every other element by \<open>String\<close>; an array prints as its elements joined by commas.
\<close>

fun js_String :: "json \<Rightarrow> string"
  and js_join :: "string \<Rightarrow> json list \<Rightarrow> string" where
  "js_String JNull = ''null''"
| "js_String (JBool b) = (if b then ''true'' else ''false'')"
| "js_String (JNumber n) = int_to_string n"
| "js_String (JString s) = s"
| "js_String (JArray xs) = js_join '','' xs"
| "js_String (JObject kvs) = ''[object Object]''"
| "js_join sep [] = []"
| "js_join sep [x] = (if x = JNull then [] else js_String x)"
| "js_join sep (x # y # ys) =
     (if x = JNull then [] else js_String x) @ sep @ js_join sep (y # ys)"

fun extractMessageFromMetadata :: "TransactionMetadata list \<Rightarrow> string option" where
  "extractMessageFromMetadata [] = None"
| "extractMessageFromMetadata (meta # rest) =
     (if label meta = ''674'' \<and> js_truthy (json_metadata meta) then
        (case get_prop (json_metadata meta) ''msg'' of
           Some (JArray msg) \<Rightarrow> Some (js_join '' '' msg)
         | _ \<Rightarrow>
             (case json_metadata meta of
                JString s \<Rightarrow> Some s
              | _ \<Rightarrow> extractMessageFromMetadata rest))
      else extractMessageFromMetadata rest)"

section \<open>blockchain.ts: fetchAddressTransactions\<close>

definition getTransactionRecipient :: "BlockchainTransaction \<Rightarrow> string \<Rightarrow> string" where
  "getTransactionRecipient txDetails senderAddress = ''Unknown Recipient''"

definition getTransactionSender :: "BlockchainTransaction \<Rightarrow> string \<Rightarrow> string" where
  "getTransactionSender txDetails addr = addr"

text \<open>
  The body of the inner \<open>try\<close>, for one element of the list: the two fetches, then the
  fields of the pushed object in the order of the source.
\<close>

definition parse_transaction ::
  "'d js_numbers \<Rightarrow> explorer \<Rightarrow> string \<Rightarrow> network \<Rightarrow> address_tx
     \<Rightarrow> thrown + ParsedTransaction" where
  "parse_transaction js ex addr net tx =
     (case fetchTransactionDetails ex (tx_hash tx) net of
        Inl e \<Rightarrow> Inl e
      | Inr txDetails \<Rightarrow>
          (case fetchTransactionMetadata ex (tx_hash tx) net of
             Inl e \<Rightarrow> Inl e
           | Inr txMetadata \<Rightarrow>
               let amountText = calculateAccurateTransactionAmount js ex (tx_hash tx) addr net
               in (case getCurrentBlockHeight ex net of
                     Inl e \<Rightarrow> Inl e
                   | Inr current \<Rightarrow>
                       Inr \<lparr> p_id = tx_hash tx,
                             p_hash = tx_hash tx,
                             p_timestamp = block_time tx * 1000,
                             p_amount = amountText,
                             p_recipient = Some (getTransactionRecipient txDetails addr),
                             p_sender = Some (getTransactionSender txDetails addr),
                             p_message = extractMessageFromMetadata txMetadata,
                             p_status = Success,
                             p_fees = number_toString js
                                        (num_div js (parseInt js (fees txDetails))
                                                 (number_of js 1000000)),
                             p_network = network_name net,
                             p_blockHeight = block_height tx,
                             p_confirmations = Some (current - block_height tx),
                             p_errorMessage = None \<rparr>)))"

text \<open>The loop: an element whose parse throws is logged and left out.\<close>

fun parse_all ::
  "'d js_numbers \<Rightarrow> explorer \<Rightarrow> string \<Rightarrow> network \<Rightarrow> address_tx list
     \<Rightarrow> ParsedTransaction list" where
  "parse_all js ex addr net [] = []"
| "parse_all js ex addr net (tx # rest) =
     (case parse_transaction js ex addr net tx of
        Inr parsed \<Rightarrow> parsed # parse_all js ex addr net rest
      | Inl e \<Rightarrow> parse_all js ex addr net rest)"

definition fetchAddressTransactions ::
  "'d js_numbers \<Rightarrow> explorer \<Rightarrow> string \<Rightarrow> network \<Rightarrow> nat \<Rightarrow> nat
     \<Rightarrow> thrown + ParsedTransaction list" where
  "fetchAddressTransactions js ex addr net page count =
     (case get_address_transactions ex net addr page count of
        Inl e \<Rightarrow> Inl e
      | Inr response \<Rightarrow>
          if \<not> ok response
          then Inl (Error (''Blockfrost API error: '' @ nat_to_string (status response)
                           @ '' '' @ statusText response))
          else (case json_body response of
                  Inl e \<Rightarrow> Inl e
                | Inr transactions \<Rightarrow> Inr (parse_all js ex addr net transactions)))"

section \<open>blockchain.ts: mock data and the availability check\<close>

text \<open>\<open>currentTime\<close> is the value of \<open>Date.now()\<close>.\<close>

definition getMockTransactions :: "string \<Rightarrow> int \<Rightarrow> ParsedTransaction list" where
  "getMockTransactions addr currentTime =
   [
     \<lparr> p_id = ''payment_001'',
       p_hash = ''a1b2c3d4e5f6789012345678901234567890123456789012345678901234abcd'',
       p_timestamp = currentTime - 3600000, p_amount = ''25.0'',
       p_recipient = Some ''addr_test1qpw3sjcca3w0lkqfqfmu8me4m9vz4g2z8kqlu9l2j8h4z9kx7l8f9'',
       p_sender = Some addr,
       p_message = Some ''Payment for coffee and lunch'', p_status = Success, p_fees = ''0.2'',
       p_network = ''preprod'', p_blockHeight = 98765, p_confirmations = Some 15,
       p_errorMessage = None \<rparr>,
     \<lparr> p_id = ''payment_002'',
       p_hash = ''b2c3d4e5f67890123456789012345678901234567890123456789012345bcde'',
       p_timestamp = currentTime - 7200000, p_amount = ''50.0'',
       p_recipient = Some ''addr_test1qqz4w3m6r8t9y5u7i1o3p4a5s6d7f8g9h0j2k3l4m5n6b8c9d0e1f2'',
       p_sender = Some addr,
       p_message = Some ''Rent payment for this month'', p_status = Success, p_fees = ''0.18'',
       p_network = ''preprod'', p_blockHeight = 98760, p_confirmations = Some 20,
       p_errorMessage = None \<rparr>,
     \<lparr> p_id = ''payment_003'',
       p_hash = ''c3d4e5f678901234567890123456789012345678901234567890123456cdef'',
       p_timestamp = currentTime - 86400000, p_amount = ''5.5'',
       p_recipient = Some ''addr_test1qr5t6y7u8i9o0p1q2w3e4r5t6y7u8i9o0p1q2w3e4r5t6y7u8i9o0'',
       p_sender = Some addr,
       p_message = Some ''Gift for birthday'', p_status = Success, p_fees = ''0.15'',
       p_network = ''preprod'', p_blockHeight = 98650, p_confirmations = Some 120,
       p_errorMessage = None \<rparr>,
     \<lparr> p_id = ''payment_004'',
       p_hash = ''d4e5f67890123456789012345678901234567890123456789012345678def0'',
       p_timestamp = currentTime - 172800000, p_amount = ''15.75'',
       p_recipient = Some ''addr_test1qqs6d7f8g9h0j1k2l3m4n5b6v7c8x9z0a1s2d3f4g5h6j7k8l9m0'',
       p_sender = Some addr,
       p_message = Some ''Freelance work payment'', p_status = Success, p_fees = ''0.22'',
       p_network = ''preprod'', p_blockHeight = 98500, p_confirmations = Some 280,
       p_errorMessage = None \<rparr>,
     \<lparr> p_id = ''payment_005'',
       p_hash = ''e5f6789012345678901234567890123456789012345678901234567890ef01'',
       p_timestamp = currentTime - 259200000, p_amount = ''8.25'',
       p_recipient = Some ''addr_test1qqg7h8j9k0l1m2n3b4v5c6x7z8a9s0d1f2g3h4j5k6l7m8n9b0v1'',
       p_sender = Some addr,
       p_message = Some ''Dinner at restaurant'', p_status = Success, p_fees = ''0.17'',
       p_network = ''preprod'', p_blockHeight = 98400, p_confirmations = Some 380,
       p_errorMessage = None \<rparr>,
     \<lparr> p_id = ''payment_006'',
       p_hash = ''f67890123456789012345678901234567890123456789012345678901234f012'',
       p_timestamp = currentTime - 345600000, p_amount = ''100.0'',
       p_recipient = Some ''addr_test1qqx8z9a0s1d2f3g4h5j6k7l8m9n0b1v2c3x4z5a6s7d8f9g0h1j2k3'',
       p_sender = Some addr,
       p_message = Some ''Investment in crypto portfolio'', p_status = Success, p_fees = ''0.25'',
       p_network = ''preprod'', p_blockHeight = 98300, p_confirmations = Some 480,
       p_errorMessage = None \<rparr>,
     \<lparr> p_id = ''received_001'',
       p_hash = ''789012345678901234567890123456789012345678901234567890123456780'',
       p_timestamp = currentTime - 432000000, p_amount = ''75.0'',
       p_recipient = Some addr,
       p_sender = Some ''addr_test1qqa9s0d1f2g3h4j5k6l7m8n9b0v1c2x3z4a5s6d7f8g9h0j1k2l3m4'',
       p_message = Some ''Salary payment received'', p_status = Success, p_fees = ''0.19'',
       p_network = ''preprod'', p_blockHeight = 98200, p_confirmations = Some 580,
       p_errorMessage = None \<rparr>,
     \<lparr> p_id = ''payment_007'',
       p_hash = ''890123456789012345678901234567890123456789012345678901234567890'',
       p_timestamp = currentTime - 518400000, p_amount = ''3.5'',
       p_recipient = Some ''addr_test1qqb0v1c2x3z4a5s6d7f8g9h0j1k2l3m4n5b6v7c8x9z0a1s2d3f4g5'',
       p_sender = Some addr,
       p_message = Some ''Tip for delivery'', p_status = Success, p_fees = ''0.14'',
       p_network = ''preprod'', p_blockHeight = 98100, p_confirmations = Some 680,
       p_errorMessage = None \<rparr>,
     \<lparr> p_id = ''failed_001'',
       p_hash = ''901234567890123456789012345678901234567890123456789012345678901'',
       p_timestamp = currentTime - 604800000, p_amount = ''20.0'',
       p_recipient = Some ''addr_test1qqc1x2z3a4s5d6f7g8h9j0k1l2m3n4b5v6c7x8z9a0s1d2f3g4h5j6'',
       p_sender = Some addr,
       p_message = Some ''Testing transaction - failed'', p_status = Failed, p_fees = ''0.2'',
       p_network = ''preprod'', p_blockHeight = 98000, p_confirmations = Some 0,
       p_errorMessage = Some ''Insufficient funds in wallet'' \<rparr> ]"

text \<open>The argument is \<open>process.env.NEXT_PUBLIC_BLOCKFROST_API_KEY\<close>.\<close>

definition isBlockfrostAvailable :: "string option \<Rightarrow> bool" where
  "isBlockfrostAvailable preprodKey =
     (truthy_str preprodKey \<and> preprodKey \<noteq> Some ''preprod_mock''
      \<and> startsWith (the preprodKey) ''preprod'')"

section \<open>dashboard.tsx: fetchBlockchainTransactions\<close>

record Transaction =
  d_id :: string
  d_timestamp :: int
  d_amount :: string
  d_recipient :: "string option"
  d_sender :: "string option"
  d_message :: "string option"
  d_status :: tx_status
  d_errorMessage :: "string option"
  d_txHash :: "string option"
  d_hash :: "string option"
  d_network :: string
  d_fees :: "string option"
  d_blockHeight :: "int option"
  d_confirmations :: "int option"
  d_balance :: "string option"

text \<open>The callback of both \<open>map\<close> calls, which are the same text.\<close>

definition to_transaction :: "ParsedTransaction \<Rightarrow> Transaction" where
  "to_transaction tx =
     \<lparr> d_id = p_hash tx,
       d_timestamp = p_timestamp tx,
       d_amount = p_amount tx,
       d_recipient = Some (if truthy_str (p_recipient tx) then the (p_recipient tx) else ''Unknown''),
       d_sender = p_sender tx,
       d_message = p_message tx,
       d_status = p_status tx,
       d_errorMessage = None,
       d_txHash = Some (p_hash tx),
       d_hash = Some (p_hash tx),
       d_network = ''preprod'',
       d_fees = Some (p_fees tx),
       d_blockHeight = Some (p_blockHeight tx),
       d_confirmations = p_confirmations tx,
       d_balance = None \<rparr>"

record dashboard_state =
  transactions :: "Transaction list"
  loading :: bool
  dashboard_error :: string

text \<open>
  The arguments are the number primitives, the configured key, the explorer, the value
  of \<open>Date.now()\<close>, the wallet address of the component and its state.
\<close>

definition fetchBlockchainTransactions ::
  "'d js_numbers \<Rightarrow> string option \<Rightarrow> explorer \<Rightarrow> int \<Rightarrow> string \<Rightarrow> dashboard_state
     \<Rightarrow> dashboard_state" where
  "fetchBlockchainTransactions js preprodKey ex currentTime walletAddress st =
     (if walletAddress = [] then st \<lparr> dashboard_error := ''No wallet address available'' \<rparr>
      else
        let st = st \<lparr> loading := True, dashboard_error := [] \<rparr>;
            fetched =
              (if isBlockfrostAvailable preprodKey
               then (case fetchAddressTransactions js ex walletAddress preprod 1 50 of
                       Inl e \<Rightarrow> Inl e
                     | Inr fetchedTxs \<Rightarrow> Inr (map to_transaction fetchedTxs))
               else Inr (map to_transaction (getMockTransactions walletAddress currentTime)));
            st = (case fetched of
                    Inr blockchainTxs \<Rightarrow> st \<lparr> transactions := blockchainTxs \<rparr>
                  | Inl e \<Rightarrow>
                      st \<lparr> dashboard_error :=
                             ''Failed to fetch blockchain data: '' @ message_or ''Unknown error'' e \<rparr>)
        in st \<lparr> loading := False \<rparr>)"

section \<open>index.tsx: saveTransaction\<close>

text \<open>The argument of \<open>saveTransaction\<close> and the object it stores.\<close>

record transaction_fields =
  f_amount :: string
  f_recipient :: string
  f_message :: "string option"
  f_status :: tx_status
  f_errorMessage :: "string option"
  f_txHash :: "string option"

record saved_transaction =
  s_id :: string
  s_timestamp :: int
  s_network :: string
  s_amount :: string
  s_recipient :: string
  s_message :: "string option"
  s_status :: tx_status
  s_errorMessage :: "string option"
  s_txHash :: "string option"

text \<open>
  The item \<open>cardano_transactions\<close> of \<open>localStorage\<close>: absent (or the empty string),
  a text that \<open>JSON.parse\<close> rejects or that is not an array, or the stored array. Only
  \<open>saveTransaction\<close> writes the item. Writing is taken to succeed.
\<close>

datatype stored = Absent | Unusable | History "saved_transaction list"

text \<open>
  What \<open>Date.now()\<close> and \<open>Math.random().toString(36).substr(2, 9)\<close> give when the new
  object is built.
\<close>

record save_env =
  now_for_id :: nat
  random_suffix :: string
  now_for_timestamp :: int

definition new_transaction :: "save_env \<Rightarrow> string \<Rightarrow> transaction_fields \<Rightarrow> saved_transaction" where
  "new_transaction env net transaction =
     \<lparr> s_id = nat_to_string (now_for_id env) @ random_suffix env,
       s_timestamp = now_for_timestamp env,
       s_network = net,
       s_amount = f_amount transaction,
       s_recipient = f_recipient transaction,
       s_message = f_message transaction,
       s_status = f_status transaction,
       s_errorMessage = f_errorMessage transaction,
       s_txHash = f_txHash transaction \<rparr>"

text \<open>\<open>xs.splice(100)\<close> when \<open>xs.length > 100\<close>.\<close>

definition splice_100 :: "'a list \<Rightarrow> 'a list" where
  "splice_100 xs = (if length xs > 100 then take 100 xs else xs)"

definition saveTransaction ::
  "save_env \<Rightarrow> string \<Rightarrow> transaction_fields \<Rightarrow> stored \<Rightarrow> stored" where
  "saveTransaction env net transaction storage =
     (case storage of
        Unusable \<Rightarrow> Unusable
      | Absent \<Rightarrow> History (splice_100 (new_transaction env net transaction # []))
      | History previous \<Rightarrow> History (splice_100 (new_transaction env net transaction # previous)))"

section \<open>index.tsx: sendAda\<close>

text \<open>\<open>s.trim()\<close>; white space is TAB, LF, VT, FF, CR and the space.\<close>

definition is_white :: "char \<Rightarrow> bool" where
  "is_white c = (c \<in> set [CHR 0x09, CHR 0x0A, CHR 0x0B, CHR 0x0C, CHR 0x0D, CHR '' ''])"

definition trim :: "string \<Rightarrow> string" where
  "trim s = rev (dropWhile is_white (rev (dropWhile is_white s)))"

text \<open>
  The transaction handed to the builder, and the wallet: the balance it reports and its
  answers to building, signing and submitting.
\<close>

record tx_request =
  to_address :: string
  lovelace :: string
  metadata :: "(nat \<times> json) option"

record wallet =
  getBalance :: "thrown + amount_entry list"
  build :: "tx_request \<Rightarrow> thrown + string"
  signTx :: "string \<Rightarrow> thrown + string"
  submitTx :: "string \<Rightarrow> thrown + string"

text \<open>The calls that \<open>sendAda\<close> makes on the wallet, with their arguments.\<close>

datatype wallet_call = GetBalance | Build tx_request | SignTx string | SubmitTx string

text \<open>
  The state of the page: the React state of the send form, the stored history, and the
  calls made on the wallet so far, in their order. A call is recorded when it is made,
  whether it returns or raises.
\<close>

record send_state =
  sendLoading :: bool
  sendStatus :: string
  txHash_state :: string
  sentMessage :: string
  recipientAddress :: string
  sendAmount :: string
  sendMessage :: string
  history :: stored
  wallet_calls :: "wallet_call list"
  refresh_scheduled :: bool

text \<open>The metadata set on the transaction: none when the trimmed message is empty.\<close>

definition message_metadata :: "string \<Rightarrow> (nat \<times> json) option" where
  "message_metadata message =
     (if trim message \<noteq> []
      then Some (674, JObject [(''msg'', JArray [JString (trim message)])])
      else None)"

definition addressPrefix :: "string \<Rightarrow> string" where
  "addressPrefix net = (if net = ''preprod'' then ''addr_test1'' else ''addr1'')"

text \<open>\<open>message || undefined\<close>.\<close>

definition or_undefined :: "string \<Rightarrow> string option" where
  "or_undefined s = (if s \<noteq> [] then Some s else None)"

text \<open>
  The \<open>try\<close> block. It reads the form as it was when \<open>sendAda\<close> was called (\<open>form\<close>)
  and returns how it ended together with the state it left.
\<close>

definition sendAda_try ::
  "'d js_numbers \<Rightarrow> save_env \<Rightarrow> wallet \<Rightarrow> string \<Rightarrow> send_state \<Rightarrow> send_state
     \<Rightarrow> (thrown + unit) \<times> send_state" where
  "sendAda_try js env w net form st =
     (let st = st \<lparr> sendLoading := True, sendStatus := ''Validating transaction...'',
                    txHash_state := [] \<rparr>
      in
      if \<not> startsWith (recipientAddress form) (addressPrefix net) then
        (Inl (Error (''Invalid '' @ net @ '' address format. Address must start with ''
                     @ [CHR 0x22] @ addressPrefix net @ [CHR 0x22])), st)
      else
        let sendAmountNum = parseFloat js (sendAmount form) in
        if num_le js sendAmountNum (number_of js 0) then
          (Inl (Error ''Amount must be greater than 0''), st)
        else
          let st = st \<lparr> sendStatus := ''Checking balance...'',
                         wallet_calls := wallet_calls st @ [GetBalance] \<rparr> in
          (case getBalance w of
             Inl e \<Rightarrow> (Inl e, st)
           | Inr walletBalance \<Rightarrow>
               (case find (\<lambda>asset. unit asset = ''lovelace'') walletBalance of
                  None \<Rightarrow> (Inl (Error ''Unable to retrieve wallet balance''), st)
                | Some adaBalance \<Rightarrow>
                    let balanceInAda = num_div js (parseInt js (quantity adaBalance))
                                                  (number_of js 1000000);
                        minRequired = num_add js sendAmountNum (number_of js 2)
                    in
                    if num_less js balanceInAda minRequired then
                      (Inl (Error (''Insufficient balance. You have '' @ toFixed js balanceInAda 6
                                   @ '' ADA, but need at least '' @ toFixed js minRequired 6
                                   @ '' ADA (including ~2 ADA for fees)'')), st)
                    else
                      let amountInLovelace =
                            number_toString js (num_mul js sendAmountNum (number_of js 1000000));
                          tx = \<lparr> to_address = recipientAddress form,
                                 lovelace = amountInLovelace,
                                 metadata = message_metadata (sendMessage form) \<rparr>;
                          st = st \<lparr> sendStatus := ''Building transaction...'',
                                    wallet_calls := wallet_calls st @ [Build tx] \<rparr>
                      in
                      (case build w tx of
                         Inl e \<Rightarrow> (Inl e, st)
                       | Inr unsignedTx \<Rightarrow>
                           let st = st \<lparr> sendStatus := ''Waiting for signature...'',
                                          wallet_calls := wallet_calls st @ [SignTx unsignedTx] \<rparr>
                           in
                           (case signTx w unsignedTx of
                              Inl e \<Rightarrow> (Inl e, st)
                            | Inr signedTx \<Rightarrow>
                                let st = st \<lparr> sendStatus := ''Submitting transaction...'',
                                               wallet_calls :=
                                                 wallet_calls st @ [SubmitTx signedTx] \<rparr>
                                in
                                (case submitTx w signedTx of
                                   Inl e \<Rightarrow> (Inl e, st)
                                 | Inr newHash \<Rightarrow>
                                     (Inr (),
                                      st \<lparr> txHash_state := newHash,
                                           sentMessage := sendMessage form,
                                           sendStatus := ''success'',
                                           history :=
                                             saveTransaction env net
                                               \<lparr> f_amount = sendAmount form,
                                                 f_recipient = recipientAddress form,
                                                 f_message = or_undefined (sendMessage form),
                                                 f_status = Success,
                                                 f_errorMessage = None,
                                                 f_txHash = Some newHash \<rparr>
                                               (history st),
                                           recipientAddress := [],
                                           sendAmount := [],
                                           sendMessage := [],
                                           refresh_scheduled := True \<rparr>)))))))"

text \<open>The message that the \<open>catch\<close> clause derives from what was thrown.\<close>

definition derive_errorMessage :: "thrown \<Rightarrow> string" where
  "derive_errorMessage e =
     (case e of
        NonError \<Rightarrow> ''Transaction failed''
      | _ \<Rightarrow>
          let m = message_or [] e in
          if includes_str m ''UTxO Fully Depleted'' then
            ''Insufficient funds. Please ensure you have enough ADA to cover the transaction amount plus network fees (~2 ADA).''
          else if includes_str m ''insufficient funds'' then ''Insufficient funds in your wallet.''
          else if includes_str m ''User declined'' then ''Transaction was cancelled by user.''
          else m)"

definition sendAda_catch :: "save_env \<Rightarrow> string \<Rightarrow> send_state \<Rightarrow> thrown \<Rightarrow> send_state \<Rightarrow> send_state" where
  "sendAda_catch env net form e st =
     (let errorMessage = derive_errorMessage e
      in st \<lparr> sendStatus := ''Error: '' @ errorMessage,
              history := saveTransaction env net
                           \<lparr> f_amount = sendAmount form,
                             f_recipient = recipientAddress form,
                             f_message = or_undefined (sendMessage form),
                             f_status = Failed,
                             f_errorMessage = Some errorMessage,
                             f_txHash = None \<rparr>
                           (history st) \<rparr>)"

text \<open>
  \<open>sendAda\<close>: nothing happens without a wallet, a recipient and an amount; otherwise
  the \<open>try\<close> block runs, the \<open>catch\<close> clause handles what it throws, and \<open>finally\<close> ends
  the loading state. The result type has no error branch: nothing leaves the function.
\<close>

definition sendAda ::
  "'d js_numbers \<Rightarrow> save_env \<Rightarrow> wallet option \<Rightarrow> string \<Rightarrow> send_state \<Rightarrow> send_state" where
  "sendAda js env connected_wallet net st =
     (case connected_wallet of
        None \<Rightarrow> st
      | Some w \<Rightarrow>
          if recipientAddress st = [] \<or> sendAmount st = [] then st
          else
            (case sendAda_try js env w net st st of
               (Inr u, st') \<Rightarrow> st' \<lparr> sendLoading := False \<rparr>
             | (Inl e, st') \<Rightarrow> (sendAda_catch env net st e st') \<lparr> sendLoading := False \<rparr>))"

section \<open>index.tsx: the failures of sendAda\<close>

text \<open>
  The failures of \<open>sendAda\<close>, in the words of the specification and in the order in which
  they are met, each with the error it raises: the recipient does not start with the
  prefix of the network, the parsed amount is at most 0, the balance request raises or
  reports no lovelace, the balance is below the amount plus 2 ADA, or the build, the
  signature or the submission raises. \<open>None\<close>: the send goes through. The comparisons
  are those of the runtime, on its numbers.
\<close>

definition send_error :: "'d js_numbers \<Rightarrow> wallet \<Rightarrow> string \<Rightarrow> send_state \<Rightarrow> thrown option" where
  "send_error js w net form =
     (if \<not> startsWith (recipientAddress form) (addressPrefix net) then
        Some (Error (''Invalid '' @ net @ '' address format. Address must start with ''
                     @ [CHR 0x22] @ addressPrefix net @ [CHR 0x22]))
      else if num_le js (parseFloat js (sendAmount form)) (number_of js 0) then
        Some (Error ''Amount must be greater than 0'')
      else
        (case getBalance w of
           Inl e \<Rightarrow> Some e
         | Inr walletBalance \<Rightarrow>
             (case find (\<lambda>asset. unit asset = ''lovelace'') walletBalance of
                None \<Rightarrow> Some (Error ''Unable to retrieve wallet balance'')
              | Some adaBalance \<Rightarrow>
                  if num_less js (num_div js (parseInt js (quantity adaBalance))
                                             (number_of js 1000000))
                                 (num_add js (parseFloat js (sendAmount form)) (number_of js 2))
                  then
                    Some (Error (''Insufficient balance. You have ''
                                 @ toFixed js (num_div js (parseInt js (quantity adaBalance))
                                                          (number_of js 1000000)) 6
                                 @ '' ADA, but need at least ''
                                 @ toFixed js (num_add js (parseFloat js (sendAmount form))
                                                          (number_of js 2)) 6
                                 @ '' ADA (including ~2 ADA for fees)''))
                  else
                    (case build w \<lparr> to_address = recipientAddress form,
                                     lovelace = number_toString js
                                       (num_mul js (parseFloat js (sendAmount form))
                                                   (number_of js 1000000)),
                                     metadata = message_metadata (sendMessage form) \<rparr> of
                       Inl e \<Rightarrow> Some e
                     | Inr unsignedTx \<Rightarrow>
                         (case signTx w unsignedTx of
                            Inl e \<Rightarrow> Some e
                          | Inr signedTx \<Rightarrow>
                              (case submitTx w signedTx of
                                 Inl e \<Rightarrow> Some e
                               | Inr newHash \<Rightarrow> None))))))"

text \<open>
  The display message for an error, in the words of the \<open>catch\<close> clause: a thrown value
  that is not an \<open>Error\<close> gives \<open>Transaction failed\<close>; a message that mentions depleted
  UTxOs, insufficient funds or a declined signature gives the text for it; any other
  message is shown as it is.
\<close>

definition display_message :: "thrown \<Rightarrow> string" where
  "display_message e =
     (if e = NonError then ''Transaction failed''
      else if includes_str (message_or [] e) ''UTxO Fully Depleted'' then
        ''Insufficient funds. Please ensure you have enough ADA to cover the transaction amount plus network fees (~2 ADA).''
      else if includes_str (message_or [] e) ''insufficient funds'' then
        ''Insufficient funds in your wallet.''
      else if includes_str (message_or [] e) ''User declined'' then
        ''Transaction was cancelled by user.''
      else message_or [] e)"

section \<open>Sample answers of the explorer\<close>

text \<open>
  An explorer that lists one transaction, answers the details and the latest block, has
  no metadata (404), and answers the UTXO request as given.
\<close>

definition ok_response :: "'b \<Rightarrow> 'b http_response" where
  "ok_response body =
     \<lparr> ok = True, status = 200, statusText = ''OK'', text_body = Inr [], json_body = Inr body \<rparr>"

definition failed_response :: "nat \<Rightarrow> string \<Rightarrow> 'b http_response" where
  "failed_response code reason =
     \<lparr> ok = False, status = code, statusText = reason, text_body = Inr [],
       json_body = Inl (Error ''Unexpected token'') \<rparr>"

definition sample_explorer :: "(thrown + tx_utxos http_response) \<Rightarrow> explorer" where
  "sample_explorer utxos_answer =
     \<lparr> get_address_transactions = (\<lambda>net addr page count.
          Inr (ok_response [\<lparr> tx_hash = ''tx1'', block_time = 1700000000, block_height = 100 \<rparr>])),
       get_tx = (\<lambda>net txHash. Inr (ok_response \<lparr> fees = ''170000'' \<rparr>)),
       get_tx_metadata = (\<lambda>net txHash. Inr (failed_response 404 ''Not Found'')),
       get_tx_utxos = (\<lambda>net txHash. utxos_answer),
       get_blocks_latest = (\<lambda>net. Inr (ok_response \<lparr> height = 130 \<rparr>)) \<rparr>"

definition transfer_utxos :: tx_utxos where
  "transfer_utxos =
     \<lparr> inputs = Some [\<lparr> address = ''addr_test1alice'',
                         amount = Some [\<lparr> unit = ''lovelace'', quantity = ''5000000'' \<rparr>] \<rparr>],
       outputs = Some [\<lparr> address = ''addr_test1alice'',
                          amount = Some [\<lparr> unit = ''lovelace'', quantity = ''3000000'' \<rparr>,
                                         \<lparr> unit = ''token'', quantity = ''40'' \<rparr>] \<rparr>,
                       \<lparr> address = ''addr_test1bob'',
                          amount = Some [\<lparr> unit = ''lovelace'', quantity = ''1830000'' \<rparr>] \<rparr>] \<rparr>"

definition repeated_lovelace_utxos :: tx_utxos where
  "repeated_lovelace_utxos =
     \<lparr> inputs = Some [],
       outputs = Some [\<lparr> address = ''addr_test1alice'',
                          amount = Some [\<lparr> unit = ''lovelace'', quantity = ''5000000'' \<rparr>,
                                         \<lparr> unit = ''lovelace'', quantity = ''7000000'' \<rparr>] \<rparr>] \<rparr>"

section \<open>Sample number primitives\<close>

text \<open>
  Number primitives that compute exactly, with rationals for the numbers and \<open>None\<close> for
  \<open>NaN\<close>. They read numerals only, and print the non-negative numbers that have at most
  six decimals; \<open>toFixed\<close> pads the fraction to six digits.
\<close>

definition rat_text :: "rat option \<Rightarrow> string" where
  "rat_text x =
     (case x of
        None \<Rightarrow> ''NaN''
      | Some r \<Rightarrow> if 0 \<le> r \<and> r * 1000000 = of_int \<lfloor>r * 1000000\<rfloor>
                  then millionths_text (nat \<lfloor>r * 1000000\<rfloor>) else ''?'')"

definition rat_fixed :: "rat option \<Rightarrow> nat \<Rightarrow> string" where
  "rat_fixed x n =
     (case x of
        None \<Rightarrow> ''NaN''
      | Some r \<Rightarrow>
          if 0 \<le> r \<and> r * 1000000 = of_int \<lfloor>r * 1000000\<rfloor> \<and> n = 6
          then nat_to_string (nat \<lfloor>r\<rfloor>) @ ''.''
               @ replicate (6 - length (nat_to_string (nat \<lfloor>r * 1000000\<rfloor> mod 1000000))) CHR ''0''
               @ nat_to_string (nat \<lfloor>r * 1000000\<rfloor> mod 1000000)
          else ''?'')"

definition lift2 :: "(rat \<Rightarrow> rat \<Rightarrow> rat) \<Rightarrow> rat option \<Rightarrow> rat option \<Rightarrow> rat option" where
  "lift2 f a b = (case (a, b) of (Some x, Some y) \<Rightarrow> Some (f x y) | _ \<Rightarrow> None)"

definition read_numeral :: "string \<Rightarrow> rat option" where
  "read_numeral s = (if is_numeral s then Some (of_nat (decimal_value s)) else None)"

definition exact_numbers :: "rat option js_numbers" where
  "exact_numbers =
     \<lparr> number_of = (\<lambda>i. Some (of_int i)),
       parseInt = read_numeral,
       parseFloat = read_numeral,
       num_add = lift2 (\<lambda>x y. x + y),
       num_sub = lift2 (\<lambda>x y. x - y),
       num_mul = lift2 (\<lambda>x y. x * y),
       num_div = (\<lambda>a b. if b = Some 0 then None else lift2 (\<lambda>x y. x / y) a b),
       Math_abs = map_option abs,
       num_le = (\<lambda>a b. case (a, b) of (Some x, Some y) \<Rightarrow> x \<le> y | _ \<Rightarrow> False),
       num_less = (\<lambda>a b. case (a, b) of (Some x, Some y) \<Rightarrow> x < y | _ \<Rightarrow> False),
       number_toString = rat_text,
       toFixed = rat_fixed \<rparr>"

section \<open>Sample forms, wallets and histories\<close>

text \<open>The clock and random text of a save, a wallet that holds 1 ADA, and a form.\<close>

definition sample_env :: save_env where
  "sample_env = \<lparr> now_for_id = 1700000000000, random_suffix = ''k3j9x0q2a'',
                   now_for_timestamp = 1700000000000 \<rparr>"

definition poor_wallet :: wallet where
  "poor_wallet =
     \<lparr> getBalance = Inr [\<lparr> unit = ''lovelace'', quantity = ''1000000'' \<rparr>],
       build = (\<lambda>tx. Inr ''unsigned''),
       signTx = (\<lambda>unsignedTx. Inr ''signed''),
       submitTx = (\<lambda>signedTx. Inr ''hash'') \<rparr>"

text \<open>
  Wallets that hold 10 ADA: one whose user declines the signature, one whose submission
  raises a value that is not an \<open>Error\<close>, and one that submits.
\<close>

definition declining_wallet :: wallet where
  "declining_wallet =
     \<lparr> getBalance = Inr [\<lparr> unit = ''token'', quantity = ''3'' \<rparr>,
                         \<lparr> unit = ''lovelace'', quantity = ''10000000'' \<rparr>],
       build = (\<lambda>tx. Inr ''unsigned''),
       signTx = (\<lambda>unsignedTx. Inl (Error ''User declined to sign the transaction.'')),
       submitTx = (\<lambda>signedTx. Inr ''hash'') \<rparr>"

definition unreachable_wallet :: wallet where
  "unreachable_wallet =
     \<lparr> getBalance = Inr [\<lparr> unit = ''lovelace'', quantity = ''10000000'' \<rparr>],
       build = (\<lambda>tx. Inr ''unsigned''),
       signTx = (\<lambda>unsignedTx. Inr ''signed''),
       submitTx = (\<lambda>signedTx. Inl NonError) \<rparr>"

definition funded_wallet :: wallet where
  "funded_wallet =
     \<lparr> getBalance = Inr [\<lparr> unit = ''lovelace'', quantity = ''10000000'' \<rparr>],
       build = (\<lambda>tx. Inr ''unsigned''),
       signTx = (\<lambda>unsignedTx. Inr ''signed''),
       submitTx = (\<lambda>signedTx. Inr ''hash'') \<rparr>"

definition sample_form :: send_state where
  "sample_form =
     \<lparr> sendLoading = False, sendStatus = [], txHash_state = [], sentMessage = [],
       recipientAddress = ''addr_test1qbob'', sendAmount = ''5'', sendMessage = ''coffee'',
       history = Absent, wallet_calls = [], refresh_scheduled = False \<rparr>"

text \<open>A stored history of distinct entries.\<close>

definition numbered_entry :: "nat \<Rightarrow> saved_transaction" where
  "numbered_entry i =
     \<lparr> s_id = nat_to_string i, s_timestamp = int i, s_network = ''preprod'',
       s_amount = ''1'', s_recipient = ''addr_test1qbob'', s_message = None,
       s_status = Success, s_errorMessage = None, s_txHash = Some (nat_to_string i) \<rparr>"

definition sample_fields :: transaction_fields where
  "sample_fields =
     \<lparr> f_amount = ''5'', f_recipient = ''addr_test1qbob'', f_message = Some ''coffee'',
       f_status = Success, f_errorMessage = None, f_txHash = Some ''hash'' \<rparr>"

definition empty_dashboard :: dashboard_state where
  "empty_dashboard = \<lparr> transactions = [], loading = False, dashboard_error = [] \<rparr>"

text \<open>The metadata entry with label 674 that carries the message \<open>m\<close>.\<close>

definition memo_entry :: "string \<Rightarrow> TransactionMetadata" where
  "memo_entry m = \<lparr> label = ''674'', json_metadata = JObject [(''msg'', JArray [JString m])] \<rparr>"

section \<open>Categorization: results\<close>

text \<open>Facts about the table, and about \<open>map\<close> with a callback that may throw.\<close>

lemma find_other: "find (\<lambda>cat. name cat = ''Other'') AVAILABLE_CATEGORIES = Some (AVAILABLE_CATEGORIES ! 8)"
  by (simp add: AVAILABLE_CATEGORIES_def)

lemma names_distinct: "distinct (map name AVAILABLE_CATEGORIES)"
  by (simp add: AVAILABLE_CATEGORIES_def)

lemma names_nine: "length AVAILABLE_CATEGORIES = 9"
  by (simp add: AVAILABLE_CATEGORIES_def)

lemma other_in_table: "AVAILABLE_CATEGORIES ! 8 \<in> set AVAILABLE_CATEGORIES \<and> name (AVAILABLE_CATEGORIES ! 8) = ''Other''"
  by (simp add: AVAILABLE_CATEGORIES_def)

lemma unique_by_name:
  assumes "c \<in> set AVAILABLE_CATEGORIES" "c' \<in> set AVAILABLE_CATEGORIES" "name c = name c'"
  shows "c = c'"
  using assms names_distinct by (meson distinct_map inj_onD)

lemma convert_result_Some:
  "\<exists>cfg. or_else (find (\<lambda>cat. name cat = r_category r) AVAILABLE_CATEGORIES)
                 (find (\<lambda>cat. name cat = ''Other'') AVAILABLE_CATEGORIES) = Some cfg
     \<and> convert_result (Some r) =
         Inr \<lparr> transactionId = ''tx_'' @ int_to_string (transactionIndex r),
               ai_category = \<lparr> category = r_category r, confidence = r_confidence r,
                                reasoning = r_reasoning r, cat_icon = icon cfg,
                                cat_color = color cfg \<rparr> \<rparr>"
  by (cases "find (\<lambda>cat. name cat = r_category r) AVAILABLE_CATEGORIES")
     (simp_all add: convert_result_def or_else_def find_other)

lemma map_throwing_has_Inl: "x \<in> set xs \<Longrightarrow> f x = Inl e \<Longrightarrow> \<exists>e'. map_throwing f xs = Inl e'"
  by (induction xs) (auto split: sum.splits)

lemma map_throwing_all_Inr:
  "(\<And>x. x \<in> set xs \<Longrightarrow> \<exists>y. f x = Inr y) \<Longrightarrow> \<exists>ys. map_throwing f xs = Inr ys"
  by (induction xs) (fastforce split: sum.splits)+

lemma map_throwing_nth:
  "map_throwing f xs = Inr ys \<Longrightarrow> length ys = length xs \<and> (\<forall>i < length xs. f (xs ! i) = Inr (ys ! i))"
proof (induction xs arbitrary: ys)
  case Nil
  then show ?case by simp
next
  case (Cons x xs)
  from Cons.prems obtain y ys' where fx: "f x = Inr y" and rest: "map_throwing f xs = Inr ys'"
    and ys: "ys = y # ys'"
    by (auto split: sum.splits)
  from Cons.IH [OF rest] have len: "length ys' = length xs"
    and nth: "\<forall>i < length xs. f (xs ! i) = Inr (ys' ! i)" by simp_all
  show ?case
  proof (intro conjI allI impI)
    show "length ys = length (x # xs)" using ys len by simp
  next
    fix i assume "i < length (x # xs)"
    then show "f ((x # xs) ! i) = Inr (ys ! i)"
      using fx nth ys by (cases i) simp_all
  qed
qed

lemma convert_result_None: "\<exists>e. convert_result None = Inl e"
  by (simp add: convert_result_def)

lemma fails_try:
  assumes fails: "categorize_request_fails fetched"
  shows "\<exists>e. categorize_try fetched = Inl e"
proof (cases fetched)
  case (Inl e)
  then show ?thesis by (simp add: categorize_try_def)
next
  case (Inr response)
  show ?thesis
  proof (cases "ok response")
    case False
    with Inr show ?thesis
      by (cases "text_body response") (simp_all add: categorize_try_def)
  next
    case is_ok: True
    show ?thesis
    proof (cases "json_body response")
      case (Inl e)
      with Inr is_ok show ?thesis by (simp add: categorize_try_def)
    next
      case body: (Inr responseData)
      show ?thesis
      proof (cases "success responseData")
        case False
        with Inr is_ok body show ?thesis by (simp add: categorize_try_def)
      next
        case succeeded: True
        show ?thesis
        proof (cases "data responseData")
          case None
          with Inr is_ok body succeeded show ?thesis by (simp add: categorize_try_def)
        next
          case (Some aiResults)
          with fails Inr is_ok body succeeded have "None \<in> set aiResults"
            by (simp add: categorize_request_fails_def)
          with convert_result_None obtain e where "map_throwing convert_result aiResults = Inl e"
            using map_throwing_has_Inl [of None aiResults convert_result] by blast
          with Inr is_ok body succeeded Some show ?thesis
            by (simp add: categorize_try_def)
        qed
      qed
    qed
  qed
qed

lemma startsWith_append: "startsWith (p @ s) p"
  by (simp add: startsWith_def)

lemma fallback_entry_fields:
  "category (ai_category (fallback_entry m i)) = ''Other''
   \<and> confidence (ai_category (fallback_entry m i)) = 0
   \<and> startsWith (reasoning (ai_category (fallback_entry m i))) ''AI categorization failed''
   \<and> transactionId (fallback_entry m i) = ''tx_'' @ nat_to_string (i + 1)"
proof -
  have "''AI categorization failed: '' @ m = ''AI categorization failed'' @ ('': '' @ m)" by simp
  then have "startsWith (''AI categorization failed: '' @ m) ''AI categorization failed''"
    by (simp only: startsWith_append)
  then show ?thesis by (simp add: fallback_entry_def)
qed

text \<open>
  Claim C3. For a non-empty list of messages, when the request to \<open>/api/categorize\<close>
  fails, answers with a status that is not ok, reports \<open>success: false\<close>, or carries a
  payload that cannot be processed, \<open>categorizeTransactionsWithAI\<close> returns normally: one
  fallback entry per message, each with category \<open>Other\<close>, confidence 0 and a reasoning
  that begins with \<open>AI categorization failed\<close>. For the empty list it returns the empty
  list and makes no request.
\<close>

theorem categorize_failure_fallback:
  assumes nonempty: "messages \<noteq> []"
      and fails: "categorize_request_fails (fetch (categorize_request messages provider))"
  shows "(\<exists>errorMessage.
            categorizeTransactionsWithAI fetch messages provider =
              ([categorize_request messages provider],
               map (fallback_entry errorMessage) [0 ..< length messages]))
       \<and> length (snd (categorizeTransactionsWithAI fetch messages provider)) = length messages
       \<and> (\<forall>c \<in> set (snd (categorizeTransactionsWithAI fetch messages provider)).
             category (ai_category c) = ''Other''
             \<and> confidence (ai_category c) = 0
             \<and> startsWith (reasoning (ai_category c)) ''AI categorization failed'')
       \<and> categorizeTransactionsWithAI fetch [] provider = ([], [])"
proof -
  from fails_try [OF fails] obtain e
    where e: "categorize_try (fetch (categorize_request messages provider)) = Inl e" ..
  define m where "m = message_or ''AI categorization failed'' e"
  have res: "categorizeTransactionsWithAI fetch messages provider =
               ([categorize_request messages provider],
                map (fallback_entry m) [0 ..< length messages])"
    using nonempty e
    by (simp add: categorizeTransactionsWithAI_def m_def)
  show ?thesis
  proof (intro conjI ballI)
    show "\<exists>errorMessage.
            categorizeTransactionsWithAI fetch messages provider =
              ([categorize_request messages provider],
               map (fallback_entry errorMessage) [0 ..< length messages])"
      using res by (rule exI)
    show "length (snd (categorizeTransactionsWithAI fetch messages provider)) = length messages"
      by (simp add: res)
    show "categorizeTransactionsWithAI fetch [] provider = ([], [])"
      by (simp add: categorizeTransactionsWithAI_def)
  next
    fix c assume "c \<in> set (snd (categorizeTransactionsWithAI fetch messages provider))"
    then obtain i where c: "c = fallback_entry m i"
      by (auto simp: res)
    show "category (ai_category c) = ''Other''"
      and "confidence (ai_category c) = 0"
      and "startsWith (reasoning (ai_category c)) ''AI categorization failed''"
      using fallback_entry_fields [of m i] by (simp_all only: c)
  qed
qed

theorem categorize_failure_fallback_witness:
  "[''coffee'', ''rent''] \<noteq> []
   \<and> categorize_request_fails
        ((\<lambda>r. Inl (Error ''Failed to fetch'')) (categorize_request [''coffee'', ''rent''] ''gemini''))
   \<and> length (snd (categorizeTransactionsWithAI (\<lambda>r. Inl (Error ''Failed to fetch''))
                     [''coffee'', ''rent''] ''gemini'')) = 2
   \<and> categorizeTransactionsWithAI (\<lambda>r. Inl (Error ''Failed to fetch'')) [] ''gemini'' = ([], [])"
proof -
  have h1: "[''coffee'', ''rent''] \<noteq> []" by simp
  have h2: "categorize_request_fails
        ((\<lambda>r. Inl (Error ''Failed to fetch'')) (categorize_request [''coffee'', ''rent''] ''gemini''))"
    by (simp add: categorize_request_fails_def)
  note inst = categorize_failure_fallback
                 [where messages = "[''coffee'', ''rent'']"
                    and fetch = "\<lambda>r. Inl (Error ''Failed to fetch'')"
                    and provider = "''gemini''", OF h1 h2]
  have "length (snd (categorizeTransactionsWithAI (\<lambda>r. Inl (Error ''Failed to fetch''))
                     [''coffee'', ''rent''] ''gemini'')) = length [''coffee'', ''rent'']"
    by (rule inst [THEN conjunct2, THEN conjunct1])
  moreover
  have "categorizeTransactionsWithAI (\<lambda>r. Inl (Error ''Failed to fetch'')) [] ''gemini'' = ([], [])"
    by (rule inst [THEN conjunct2, THEN conjunct2, THEN conjunct2])
  ultimately show ?thesis using h1 h2 by simp
qed


lemma categorize_try_success:
  assumes "fetched = Inr response" "ok response" "json_body response = Inr payload"
      and "success payload" "data payload = Some rs"
  shows "categorize_try fetched = map_throwing convert_result rs"
  using assms by (simp add: categorize_try_def)

lemma convert_all_Inr:
  "\<exists>ys. map_throwing convert_result (map Some results) = Inr ys"
proof (rule map_throwing_all_Inr)
  fix x assume "x \<in> set (map Some results)"
  then obtain r where "x = Some r" by auto
  then show "\<exists>y. convert_result x = Inr y"
    using convert_result_Some [of r] by auto
qed

text \<open>
  Claim C10. On a successful answer, the entry built for an AI result keeps the result's
  category name verbatim. When that name is none of the nine names of
  \<open>AVAILABLE_CATEGORIES\<close>, the entry takes the icon and color of the table's \<open>Other\<close>
  entry; when it is the name of an entry of the table, it takes that entry's icon and
  color.
\<close>

theorem categorize_keeps_name_styles:
  assumes nonempty: "messages \<noteq> []"
      and fetched: "fetch (categorize_request messages provider) = Inr response"
      and ok: "ok response"
      and body: "json_body response = Inr payload"
      and succ: "success payload"
      and dat: "data payload = Some (map Some results)"
      and i: "i < length results"
  shows "let out = ai_category (snd (categorizeTransactionsWithAI fetch messages provider) ! i);
             result = results ! i
         in length (snd (categorizeTransactionsWithAI fetch messages provider)) = length results
          \<and> category out = r_category result
          \<and> (r_category result \<notin> set (map name AVAILABLE_CATEGORIES) \<longrightarrow>
                (\<exists>other \<in> set AVAILABLE_CATEGORIES.
                    name other = ''Other'' \<and> cat_icon out = icon other \<and> cat_color out = color other))
          \<and> (\<forall>cat \<in> set AVAILABLE_CATEGORIES.
                name cat = r_category result \<longrightarrow> cat_icon out = icon cat \<and> cat_color out = color cat)
          \<and> length AVAILABLE_CATEGORIES = 9
          \<and> distinct (map name AVAILABLE_CATEGORIES)"
proof -
  obtain ys where ys: "map_throwing convert_result (map Some results) = Inr ys"
    using convert_all_Inr by blast
  have tried: "categorize_try (fetch (categorize_request messages provider)) = Inr ys"
    using categorize_try_success [OF fetched ok body succ dat] ys by simp
  have res: "snd (categorizeTransactionsWithAI fetch messages provider) = ys"
    using nonempty tried
    by (simp add: categorizeTransactionsWithAI_def)
  from map_throwing_nth [OF ys] i
  have len: "length ys = length results"
    and nth: "convert_result (Some (results ! i)) = Inr (ys ! i)"
    by simp_all
  define r where "r = results ! i"
  from convert_result_Some [of r] obtain cfg where
    cfg: "or_else (find (\<lambda>cat. name cat = r_category r) AVAILABLE_CATEGORIES)
                  (find (\<lambda>cat. name cat = ''Other'') AVAILABLE_CATEGORIES) = Some cfg"
    and conv: "convert_result (Some r) =
         Inr \<lparr> transactionId = ''tx_'' @ int_to_string (transactionIndex r),
               ai_category = \<lparr> category = r_category r, confidence = r_confidence r,
                                reasoning = r_reasoning r, cat_icon = icon cfg,
                                cat_color = color cfg \<rparr> \<rparr>"
    by blast
  from nth conv have out: "ai_category (ys ! i) =
      \<lparr> category = r_category r, confidence = r_confidence r, reasoning = r_reasoning r,
        cat_icon = icon cfg, cat_color = color cfg \<rparr>"
    by (simp add: r_def)
  have name_kept: "category (ai_category (ys ! i)) = r_category r"
    by (simp add: out)
  have unknown: "\<exists>other \<in> set AVAILABLE_CATEGORIES.
          name other = ''Other'' \<and> cat_icon (ai_category (ys ! i)) = icon other
          \<and> cat_color (ai_category (ys ! i)) = color other"
    if "r_category r \<notin> set (map name AVAILABLE_CATEGORIES)"
  proof -
    from that have "find (\<lambda>cat. name cat = r_category r) AVAILABLE_CATEGORIES = None"
      by (force simp: find_None_iff image_iff)
    with cfg have "cfg = AVAILABLE_CATEGORIES ! 8"
      by (simp add: or_else_def find_other)
    with other_in_table show ?thesis
      by (auto simp: out)
  qed
  have known: "cat_icon (ai_category (ys ! i)) = icon cat \<and> cat_color (ai_category (ys ! i)) = color cat"
    if mem: "cat \<in> set AVAILABLE_CATEGORIES" and nm: "name cat = r_category r" for cat
  proof -
    from mem nm have "find (\<lambda>cat. name cat = r_category r) AVAILABLE_CATEGORIES \<noteq> None"
      by (auto simp: find_None_iff)
    then obtain c where c: "find (\<lambda>cat. name cat = r_category r) AVAILABLE_CATEGORIES = Some c"
      by blast
    then have "c \<in> set AVAILABLE_CATEGORIES" and "name c = r_category r"
      by (auto simp: find_Some_iff)
    with mem nm have "c = cat"
      by (simp add: unique_by_name)
    moreover from c cfg have "cfg = c"
      by (simp add: or_else_def)
    ultimately show ?thesis
      by (simp add: out)
  qed
  show ?thesis
    unfolding Let_def res r_def [symmetric]
    using len name_kept unknown known names_nine names_distinct by blast
qed

theorem categorize_keeps_name_styles_witness:
  "map (category \<circ> ai_category)
       (snd (categorizeTransactionsWithAI (\<lambda>r. Inr groceries_response)
               [''weekly shop'', ''dinner''] ''gemini'')) = [''Groceries'', ''Food & Dining'']
   \<and> ''Groceries'' \<notin> set (map name AVAILABLE_CATEGORIES)
   \<and> cat_icon (ai_category (snd (categorizeTransactionsWithAI (\<lambda>r. Inr groceries_response)
                                  [''weekly shop'', ''dinner''] ''gemini'') ! 0))
       = [CHR 0xF0, CHR 0x9F, CHR 0x92, CHR 0xAC]
   \<and> cat_icon (ai_category (snd (categorizeTransactionsWithAI (\<lambda>r. Inr groceries_response)
                                  [''weekly shop'', ''dinner''] ''gemini'') ! 1))
       = [CHR 0xF0, CHR 0x9F, CHR 0x8D, CHR 0xBD, CHR 0xEF, CHR 0xB8, CHR 0x8F]"
proof -
  define results where "results =
     [\<lparr> transactionIndex = 1, r_category = ''Groceries'',
        r_confidence = 9 / 10, r_reasoning = ''food shop'' \<rparr>,
      \<lparr> transactionIndex = 2, r_category = ''Food & Dining'',
        r_confidence = 1 / 2, r_reasoning = ''a meal'' \<rparr>]"
  define payload where "payload = \<lparr> success = True, data = Some (map Some results), error = None \<rparr>"
  define out where "out = snd (categorizeTransactionsWithAI (\<lambda>r. Inr groceries_response)
                                 [''weekly shop'', ''dinner''] ''gemini'')"
  have h1: "[''weekly shop'', ''dinner''] \<noteq> []" by simp
  have h2: "(\<lambda>r. Inr groceries_response) (categorize_request [''weekly shop'', ''dinner''] ''gemini'')
              = Inr groceries_response" by simp
  have h3: "ok groceries_response" by (simp add: groceries_response_def)
  have h4: "json_body groceries_response = Inr payload"
    by (simp add: groceries_response_def payload_def results_def)
  have h5: "success payload" by (simp add: payload_def)
  have h6: "data payload = Some (map Some results)" by (simp add: payload_def)
  have i0: "0 < length results" and i1: "1 < length results" by (simp_all add: results_def)
  have r0: "r_category (results ! 0) = ''Groceries''"
    and r1: "r_category (results ! 1) = ''Food & Dining''"
    by (simp_all add: results_def)
  have notin: "''Groceries'' \<notin> set (map name AVAILABLE_CATEGORIES)"
    by (simp add: AVAILABLE_CATEGORIES_def)
  have food: "AVAILABLE_CATEGORIES ! 4 \<in> set AVAILABLE_CATEGORIES"
    "name (AVAILABLE_CATEGORIES ! 4) = ''Food & Dining''"
    "icon (AVAILABLE_CATEGORIES ! 4) = [CHR 0xF0, CHR 0x9F, CHR 0x8D, CHR 0xBD, CHR 0xEF, CHR 0xB8, CHR 0x8F]"
    by (simp_all add: AVAILABLE_CATEGORIES_def)
  note inst = categorize_keeps_name_styles
                [where fetch = "\<lambda>r. Inr groceries_response" and provider = "''gemini''",
                 OF h1 h2 h3 h4 h5 h6, unfolded Let_def, folded out_def]
  from inst [OF i0] r0 notin
  have len: "length out = length results"
    and c0: "category (ai_category (out ! 0)) = ''Groceries''"
    and icon0: "\<exists>other \<in> set AVAILABLE_CATEGORIES.
                  name other = ''Other'' \<and> cat_icon (ai_category (out ! 0)) = icon other"
    by auto
  from icon0 have icon0': "cat_icon (ai_category (out ! 0)) = [CHR 0xF0, CHR 0x9F, CHR 0x92, CHR 0xAC]"
    by (auto simp: AVAILABLE_CATEGORIES_def)
  from inst [OF i1] r1 food
  have c1: "category (ai_category (out ! 1)) = ''Food & Dining''"
    and icon1: "cat_icon (ai_category (out ! 1))
                  = [CHR 0xF0, CHR 0x9F, CHR 0x8D, CHR 0xBD, CHR 0xEF, CHR 0xB8, CHR 0x8F]"
    by auto
  from len have "length out = 2" by (simp add: results_def)
  then have "out = [out ! 0, out ! 1]"
    by (auto simp: list_eq_iff_nth_eq less_Suc_eq numeral_2_eq_2)
  then have "map (category \<circ> ai_category) out
               = [category (ai_category (out ! 0)), category (ai_category (out ! 1))]"
    by (metis (no_types, lifting) comp_apply list.simps(8) list.simps(9))
  with c0 c1 have names: "map (category \<circ> ai_category) out = [''Groceries'', ''Food & Dining'']"
    by simp
  from names notin icon0' icon1 show ?thesis
    unfolding out_def by (simp only: simp_thms)
qed

section \<open>Net amount of a transaction: results\<close>

text \<open>The exact texts, and the sample primitives on sample values.\<close>

lemma millionths_text_examples:
  "millionths_text 1500000 = ''1.5''"
  "millionths_text 12000000 = ''12''"
  "millionths_text 1 = ''0.000001''"
  "millionths_text 123456789 = ''123.456789''"
  "millionths_text 1000 = ''0.001''"
  "millionths_text 2170000 = ''2.17''"
  "millionths_text 0 = ''0''"
  by code_simp+

lemma exact_numbers_examples:
  "parseInt exact_numbers ''5000000'' = Some 5000000"
  "parseInt exact_numbers ''abc'' = None"
  "number_toString exact_numbers
     (num_div exact_numbers (parseInt exact_numbers ''170000'') (number_of exact_numbers 1000000))
     = ''0.17''"
  "toFixed exact_numbers (Some 7) 6 = ''7.000000''"
  "toFixed exact_numbers (Some (3 / 2)) 6 = ''1.500000''"
  by code_simp+

text \<open>The sample primitives are exact on integers.\<close>

lemma exact_numbers_exact: "exact_on_integers exact_numbers"
proof -
  have print: "rat_text (Some (of_int x / 1000000)) = millionths_text (nat x)" if "0 \<le> x" for x
  proof -
    have "(of_int x / 1000000 :: rat) * 1000000 = of_int x" by simp
    with that show ?thesis by (simp add: rat_text_def)
  qed
  show ?thesis
    unfolding exact_on_integers_def
  proof (intro conjI allI impI)
    fix x y :: int
    show "num_add exact_numbers (number_of exact_numbers x) (number_of exact_numbers y)
            = number_of exact_numbers (x + y)"
      by (simp add: exact_numbers_def lift2_def)
    show "num_sub exact_numbers (number_of exact_numbers x) (number_of exact_numbers y)
            = number_of exact_numbers (x - y)"
      by (simp add: exact_numbers_def lift2_def)
  next
    fix x :: int
    show "Math_abs exact_numbers (number_of exact_numbers x) = number_of exact_numbers \<bar>x\<bar>"
      by (simp add: exact_numbers_def)
  next
    fix s
    assume "is_numeral s \<and> int (decimal_value s) < 10 ^ 15"
    then show "parseInt exact_numbers s = number_of exact_numbers (int (decimal_value s))"
      by (simp add: exact_numbers_def read_numeral_def)
  next
    fix x :: int
    assume "0 \<le> x \<and> x < 10 ^ 15"
    then have "0 \<le> x" by simp
    from print [OF this]
    show "number_toString exact_numbers
            (num_div exact_numbers (number_of exact_numbers x) (number_of exact_numbers 1000000))
          = millionths_text (nat x)"
      by (simp add: exact_numbers_def lift2_def)
  qed
qed

text \<open>Two answers on which the scan raises: no output list, and an entry without amounts.\<close>

lemma scan_utxos_failure_examples:
  "isl (scan_utxos js \<lparr> inputs = Some [], outputs = None \<rparr> ''addr_test1alice'')"
  "isl (scan_utxos js \<lparr> inputs = Some [\<lparr> address = ''addr_test1alice'', amount = None \<rparr>],
                        outputs = Some [] \<rparr> ''addr_test1alice'')"
  "\<not> isl (scan_utxos js \<lparr> inputs = Some [\<lparr> address = ''addr_test1bob'', amount = None \<rparr>],
                          outputs = Some [] \<rparr> ''addr_test1alice'')"
  by (simp_all add: scan_utxos_def)

text \<open>The loop adds the quantities of the first lovelace amounts, in their order.\<close>

lemma first_lovelace_amounts_Cons:
  "first_lovelace_amounts (entry # rest) addr =
     (if address entry = addr
      then (case find (\<lambda>a. unit a = ''lovelace'') (amounts_of entry) of
              Some a \<Rightarrow> [a] | None \<Rightarrow> []) @ first_lovelace_amounts rest addr
      else first_lovelace_amounts rest addr)"
  by (simp add: first_lovelace_amounts_def)

lemma all_lovelace_amounts_Cons:
  "all_lovelace_amounts (entry # rest) addr =
     (if address entry = addr
      then filter (\<lambda>a. unit a = ''lovelace'') (amounts_of entry) @ all_lovelace_amounts rest addr
      else all_lovelace_amounts rest addr)"
  by (simp add: all_lovelace_amounts_def)

lemma sum_lovelace_present:
  "amounts_present entries addr \<Longrightarrow>
     sum_lovelace js entries addr running =
       Inr (foldl (num_add js) running
              (map (\<lambda>a. parseInt js (quantity a)) (first_lovelace_amounts entries addr)))"
proof (induction entries arbitrary: running)
  case Nil
  show ?case by (simp add: first_lovelace_amounts_def)
next
  case (Cons entry rest)
  from Cons.prems have rest: "amounts_present rest addr"
    by (simp add: amounts_present_def)
  show ?case
  proof (cases "address entry = addr")
    case False
    then show ?thesis
      using Cons.IH [OF rest] by (simp add: first_lovelace_amounts_Cons)
  next
    case True
    with Cons.prems obtain amounts where am: "amount entry = Some amounts"
      by (auto simp: amounts_present_def)
    show ?thesis
    proof (cases "find (\<lambda>a. unit a = ''lovelace'') amounts")
      case None
      then show ?thesis
        using True am Cons.IH [OF rest]
        by (simp add: first_lovelace_amounts_Cons amounts_of_def)
    next
      case (Some a)
      then show ?thesis
        using True am Cons.IH [OF rest]
        by (simp add: first_lovelace_amounts_Cons amounts_of_def)
    qed
  qed
qed

lemma scan_utxos_present:
  assumes "outputs utxos = Some outs" "inputs utxos = Some ins"
      and "amounts_present outs addr" "amounts_present ins addr"
  shows "scan_utxos js utxos addr =
           Inr (number_toString js
                  (num_div js
                     (Math_abs js (num_sub js (runtime_sum js (first_lovelace_amounts outs addr))
                                              (runtime_sum js (first_lovelace_amounts ins addr))))
                     (number_of js 1000000)))"
  using assms(1,2) sum_lovelace_present [OF assms(3), where js = js]
    sum_lovelace_present [OF assms(4), where js = js]
  by (simp add: scan_utxos_def runtime_sum_def)

text \<open>With at most one lovelace amount in a list, the first one is all of them.\<close>

lemma filter_at_most_one:
  "length (filter P xs) \<le> 1 \<Longrightarrow> filter P xs = (case find P xs of Some a \<Rightarrow> [a] | None \<Rightarrow> [])"
proof (induction xs)
  case Nil
  then show ?case by simp
next
  case (Cons x xs)
  show ?case
  proof (cases "P x")
    case True
    with Cons.prems have "filter P xs = []" by simp
    with True show ?thesis by simp
  next
    case False
    with Cons show ?thesis by simp
  qed
qed

lemma first_is_all:
  "single_lovelace entries addr \<Longrightarrow>
     first_lovelace_amounts entries addr = all_lovelace_amounts entries addr"
proof (induction entries)
  case Nil
  show ?case by (simp add: first_lovelace_amounts_def all_lovelace_amounts_def)
next
  case (Cons entry rest)
  from Cons.prems have rest: "single_lovelace rest addr"
    and here: "address entry = addr \<longrightarrow>
                 length (filter (\<lambda>a. unit a = ''lovelace'') (amounts_of entry)) \<le> 1"
    by (simp_all add: single_lovelace_def)
  show ?case
  proof (cases "address entry = addr")
    case True
    with here have "length (filter (\<lambda>a. unit a = ''lovelace'') (amounts_of entry)) \<le> 1"
      by (rule mp)
    then have "filter (\<lambda>a. unit a = ''lovelace'') (amounts_of entry) =
                      (case find (\<lambda>a. unit a = ''lovelace'') (amounts_of entry) of
                         Some a \<Rightarrow> [a] | None \<Rightarrow> [])"
      by (rule filter_at_most_one)
    with True Cons.IH [OF rest] show ?thesis
      by (simp only: first_lovelace_amounts_Cons all_lovelace_amounts_Cons if_True)
  next
    case False
    with Cons.IH [OF rest] show ?thesis
      by (simp only: first_lovelace_amounts_Cons all_lovelace_amounts_Cons if_False)
  qed
qed

text \<open>On numerals whose sum stays below \<open>10 ^ 15\<close>, an exact runtime adds exactly.\<close>

lemma exact_sum_nonneg: "0 \<le> exact_sum amounts"
  by (induction amounts) (simp_all add: exact_sum_def)

lemma foldl_add_exact:
  assumes exact: "exact_on_integers js"
  shows "numeral_quantities amounts \<Longrightarrow> 0 \<le> acc \<Longrightarrow> acc + exact_sum amounts < 10 ^ 15 \<Longrightarrow>
         foldl (num_add js) (number_of js acc) (map (\<lambda>a. parseInt js (quantity a)) amounts)
           = number_of js (acc + exact_sum amounts)"
proof (induction amounts arbitrary: acc)
  case Nil
  show ?case by (simp add: exact_sum_def)
next
  case (Cons a rest)
  let ?v = "int (decimal_value (quantity a))"
  have split: "exact_sum (a # rest) = ?v + exact_sum rest"
    by (simp add: exact_sum_def)
  have rest_nonneg: "0 \<le> exact_sum rest" by (rule exact_sum_nonneg)
  from Cons.prems(1) have num: "is_numeral (quantity a)" and rest: "numeral_quantities rest"
    by (simp_all add: numeral_quantities_def)
  from Cons.prems(2,3) split rest_nonneg have small: "?v < 10 ^ 15" and sum_small: "acc + ?v < 10 ^ 15"
    by simp_all
  from exact num small have read: "parseInt js (quantity a) = number_of js ?v"
    by (simp add: exact_on_integers_def)
  from exact Cons.prems(2) sum_small
  have added: "num_add js (number_of js acc) (number_of js ?v) = number_of js (acc + ?v)"
    by (simp add: exact_on_integers_def)
  from Cons.prems(2) have nonneg: "0 \<le> acc + ?v" by simp
  from Cons.prems(3) split have bound: "(acc + ?v) + exact_sum rest < 10 ^ 15" by simp
  from Cons.IH [OF rest nonneg bound] read added split show ?case
    by (simp add: add.assoc)
qed

lemma runtime_sum_exact:
  assumes "exact_on_integers js" "numeral_quantities amounts" "exact_sum amounts < 10 ^ 15"
  shows "runtime_sum js amounts = number_of js (exact_sum amounts)"
  using foldl_add_exact [OF assms(1,2), of 0] assms(3)
  by (simp add: runtime_sum_def)

lemma exact_net_text:
  assumes exact: "exact_on_integers js"
      and "0 \<le> x" "x < 10 ^ 15" "0 \<le> y" "y < 10 ^ 15"
  shows "number_toString js
           (num_div js (Math_abs js (num_sub js (number_of js x) (number_of js y)))
                       (number_of js 1000000))
         = millionths_text (nat \<bar>x - y\<bar>)"
proof -
  from assms have small: "\<bar>x - y\<bar> < 10 ^ 15" by simp
  from exact assms(2-5) have "num_sub js (number_of js x) (number_of js y) = number_of js (x - y)"
    by (simp add: exact_on_integers_def)
  moreover from exact small have "Math_abs js (number_of js (x - y)) = number_of js \<bar>x - y\<bar>"
    by (simp add: exact_on_integers_def)
  moreover from exact small
  have "number_toString js (num_div js (number_of js \<bar>x - y\<bar>) (number_of js 1000000))
          = millionths_text (nat \<bar>x - y\<bar>)"
    by (simp add: exact_on_integers_def)
  ultimately show ?thesis by simp
qed

lemma calculate_present:
  assumes "fetchTransactionUTXOs ex txHash net = Inr utxos"
      and "outputs utxos = Some outs" "inputs utxos = Some ins"
      and "amounts_present outs addr" "amounts_present ins addr"
  shows "calculateAccurateTransactionAmount js ex txHash addr net =
           number_toString js
             (num_div js
                (Math_abs js (num_sub js (runtime_sum js (first_lovelace_amounts outs addr))
                                         (runtime_sum js (first_lovelace_amounts ins addr))))
                (number_of js 1000000))"
  using assms(1) scan_utxos_present [OF assms(2-5), where js = js]
  by (simp add: calculateAccurateTransactionAmount_def calculate_try_def)

lemma calculate_exact:
  assumes "fetchTransactionUTXOs ex txHash net = Inr utxos"
      and "outputs utxos = Some outs" "inputs utxos = Some ins"
      and "amounts_present outs addr" "amounts_present ins addr"
      and exact: "exact_on_integers js"
      and no: "numeral_quantities (first_lovelace_amounts outs addr)"
      and ni: "numeral_quantities (first_lovelace_amounts ins addr)"
      and so: "exact_sum (first_lovelace_amounts outs addr) < 10 ^ 15"
      and si: "exact_sum (first_lovelace_amounts ins addr) < 10 ^ 15"
  shows "calculateAccurateTransactionAmount js ex txHash addr net =
           millionths_text (nat \<bar>exact_sum (first_lovelace_amounts outs addr)
                                 - exact_sum (first_lovelace_amounts ins addr)\<bar>)"
proof -
  have "runtime_sum js (first_lovelace_amounts outs addr)
          = number_of js (exact_sum (first_lovelace_amounts outs addr))"
    by (rule runtime_sum_exact [OF exact no so])
  moreover have "runtime_sum js (first_lovelace_amounts ins addr)
          = number_of js (exact_sum (first_lovelace_amounts ins addr))"
    by (rule runtime_sum_exact [OF exact ni si])
  ultimately show ?thesis
    using calculate_present [OF assms(1-5), where js = js]
      exact_net_text [OF exact exact_sum_nonneg so exact_sum_nonneg si]
    by simp
qed

text \<open>
  An output that lists lovelace twice: every runtime that is exact on integers scans 5 ADA.
\<close>

lemma repeated_lovelace_scan:
  assumes "exact_on_integers js"
  shows "calculateAccurateTransactionAmount js
           (sample_explorer (Inr (ok_response repeated_lovelace_utxos)))
           ''tx1'' ''addr_test1alice'' preprod = ''5''"
proof -
  let ?outs = "the (outputs repeated_lovelace_utxos)" and ?ins = "the (inputs repeated_lovelace_utxos)"
  have h1: "fetchTransactionUTXOs (sample_explorer (Inr (ok_response repeated_lovelace_utxos)))
              ''tx1'' preprod = Inr repeated_lovelace_utxos"
    by (simp add: fetchTransactionUTXOs_def sample_explorer_def ok_response_def)
  have h2: "outputs repeated_lovelace_utxos = Some ?outs"
    and h3: "inputs repeated_lovelace_utxos = Some ?ins"
    by (simp_all add: repeated_lovelace_utxos_def)
  have h4: "amounts_present ?outs ''addr_test1alice''" by code_simp
  have h5: "amounts_present ?ins ''addr_test1alice''" by code_simp
  have n1: "numeral_quantities (first_lovelace_amounts ?outs ''addr_test1alice'')" by code_simp
  have n2: "numeral_quantities (first_lovelace_amounts ?ins ''addr_test1alice'')" by code_simp
  have v1: "exact_sum (first_lovelace_amounts ?outs ''addr_test1alice'') = 5000000" by code_simp
  have v2: "exact_sum (first_lovelace_amounts ?ins ''addr_test1alice'') = 0" by code_simp
  have b1: "exact_sum (first_lovelace_amounts ?outs ''addr_test1alice'') < 10 ^ 15"
    and b2: "exact_sum (first_lovelace_amounts ?ins ''addr_test1alice'') < 10 ^ 15"
    unfolding v1 v2 by simp_all
  have v3: "millionths_text (nat \<bar>5000000 - 0\<bar>) = ''5''" by code_simp
  from calculate_exact [OF h1 h2 h3 h4 h5 assms n1 n2 b1 b2] show ?thesis
    unfolding v1 v2 v3 .
qed

lemma calculate_try_cases:
  "calculate_try js ex txHash addr net = Inl e \<longleftrightarrow>
     fetchTransactionUTXOs ex txHash net = Inl e
     \<or> (\<exists>utxos. fetchTransactionUTXOs ex txHash net = Inr utxos \<and> scan_utxos js utxos addr = Inl e)"
  by (cases "fetchTransactionUTXOs ex txHash net") (simp_all add: calculate_try_def)

lemma parse_all_status: "\<forall>t \<in> set (parse_all js ex addr net txs). p_status t = Success"
proof (induction txs)
  case Nil
  show ?case by simp
next
  case (Cons tx rest)
  show ?case
  proof (cases "parse_transaction js ex addr net tx")
    case (Inl e)
    with Cons.IH show ?thesis by simp
  next
    case (Inr parsed)
    then have "p_status parsed = Success"
      by (auto simp: parse_transaction_def Let_def split: sum.splits)
    with Inr Cons.IH show ?thesis by simp
  qed
qed

text \<open>
  Claim C1, amended. When the UTXOs of the transaction are fetched and every entry at the
  target address has its amount list, \<open>calculateAccurateTransactionAmount\<close> returns what
  the runtime prints for: the absolute value of (the runtime's sum, over the outputs at
  the address, of the quantity of the first lovelace amount of the output) minus (the same
  sum over the inputs at the address), divided by 1,000,000. Amounts of other units,
  later lovelace amounts of an entry and entries at other addresses add nothing.

  When the runtime is exact on the integers below \<open>10 ^ 15\<close>, the quantities read are
  numerals and both sums are below \<open>10 ^ 15\<close> lovelace, the result is the exact decimal
  text of a millionth of the absolute difference of the two integer sums.

  When no amount list at the address has two lovelace amounts, the amounts read are all
  the lovelace amounts at the address, so that under the same conditions the result is
  the exact decimal text for the sums of all lovelace quantities, as the specification
  words it.
\<close>

theorem net_amount_first_lovelace:
  assumes fetched: "fetchTransactionUTXOs ex txHash net = Inr utxos"
      and outs: "outputs utxos = Some outs"
      and ins: "inputs utxos = Some ins"
      and present_outs: "amounts_present outs addr"
      and present_ins: "amounts_present ins addr"
  shows "calculateAccurateTransactionAmount js ex txHash addr net =
           number_toString js
             (num_div js
                (Math_abs js (num_sub js (runtime_sum js (first_lovelace_amounts outs addr))
                                         (runtime_sum js (first_lovelace_amounts ins addr))))
                (number_of js 1000000))
       \<and> (exact_on_integers js
          \<and> numeral_quantities (first_lovelace_amounts outs addr)
          \<and> numeral_quantities (first_lovelace_amounts ins addr)
          \<and> exact_sum (first_lovelace_amounts outs addr) < 10 ^ 15
          \<and> exact_sum (first_lovelace_amounts ins addr) < 10 ^ 15 \<longrightarrow>
            calculateAccurateTransactionAmount js ex txHash addr net =
              millionths_text (nat \<bar>exact_sum (first_lovelace_amounts outs addr)
                                    - exact_sum (first_lovelace_amounts ins addr)\<bar>))
       \<and> (single_lovelace outs addr \<and> single_lovelace ins addr \<longrightarrow>
            first_lovelace_amounts outs addr = all_lovelace_amounts outs addr
            \<and> first_lovelace_amounts ins addr = all_lovelace_amounts ins addr)
       \<and> (single_lovelace outs addr \<and> single_lovelace ins addr
          \<and> exact_on_integers js
          \<and> numeral_quantities (all_lovelace_amounts outs addr)
          \<and> numeral_quantities (all_lovelace_amounts ins addr)
          \<and> exact_sum (all_lovelace_amounts outs addr) < 10 ^ 15
          \<and> exact_sum (all_lovelace_amounts ins addr) < 10 ^ 15 \<longrightarrow>
            calculateAccurateTransactionAmount js ex txHash addr net =
              millionths_text (nat \<bar>exact_sum (all_lovelace_amounts outs addr)
                                    - exact_sum (all_lovelace_amounts ins addr)\<bar>))"
proof -
  let ?fo = "first_lovelace_amounts outs addr" and ?fi = "first_lovelace_amounts ins addr"
  note given = fetched outs ins present_outs present_ins
  have run: "calculateAccurateTransactionAmount js ex txHash addr net =
           number_toString js
             (num_div js (Math_abs js (num_sub js (runtime_sum js ?fo) (runtime_sum js ?fi)))
                         (number_of js 1000000))"
    by (rule calculate_present [OF given])
  have exact_case: "calculateAccurateTransactionAmount js ex txHash addr net =
                      millionths_text (nat \<bar>exact_sum ?fo - exact_sum ?fi\<bar>)"
    if "exact_on_integers js" "numeral_quantities ?fo" "numeral_quantities ?fi"
       "exact_sum ?fo < 10 ^ 15" "exact_sum ?fi < 10 ^ 15"
    by (rule calculate_exact [OF given that])
  show ?thesis
  proof (intro conjI impI)
    show "calculateAccurateTransactionAmount js ex txHash addr net =
           number_toString js
             (num_div js (Math_abs js (num_sub js (runtime_sum js ?fo) (runtime_sum js ?fi)))
                         (number_of js 1000000))"
      by (rule run)
  next
    assume "exact_on_integers js \<and> numeral_quantities ?fo \<and> numeral_quantities ?fi
            \<and> exact_sum ?fo < 10 ^ 15 \<and> exact_sum ?fi < 10 ^ 15"
    then show "calculateAccurateTransactionAmount js ex txHash addr net =
                 millionths_text (nat \<bar>exact_sum ?fo - exact_sum ?fi\<bar>)"
      by (intro exact_case) simp_all
  next
    assume single: "single_lovelace outs addr \<and> single_lovelace ins addr"
    then show "?fo = all_lovelace_amounts outs addr" by (simp add: first_is_all)
    from single show "?fi = all_lovelace_amounts ins addr" by (simp add: first_is_all)
  next
    assume all: "single_lovelace outs addr \<and> single_lovelace ins addr
          \<and> exact_on_integers js
          \<and> numeral_quantities (all_lovelace_amounts outs addr)
          \<and> numeral_quantities (all_lovelace_amounts ins addr)
          \<and> exact_sum (all_lovelace_amounts outs addr) < 10 ^ 15
          \<and> exact_sum (all_lovelace_amounts ins addr) < 10 ^ 15"
    then have eo: "all_lovelace_amounts outs addr = ?fo" and ei: "all_lovelace_amounts ins addr = ?fi"
      by (simp_all add: first_is_all)
    from all show "calculateAccurateTransactionAmount js ex txHash addr net =
              millionths_text (nat \<bar>exact_sum (all_lovelace_amounts outs addr)
                                    - exact_sum (all_lovelace_amounts ins addr)\<bar>)"
      unfolding eo ei by (intro exact_case) simp_all
  qed
qed

theorem net_amount_first_lovelace_witness:
  "fetchTransactionUTXOs (sample_explorer (Inr (ok_response transfer_utxos))) ''tx1'' preprod
     = Inr transfer_utxos
   \<and> amounts_present (the (outputs transfer_utxos)) ''addr_test1alice''
   \<and> amounts_present (the (inputs transfer_utxos)) ''addr_test1alice''
   \<and> single_lovelace (the (outputs transfer_utxos)) ''addr_test1alice''
   \<and> single_lovelace (the (inputs transfer_utxos)) ''addr_test1alice''
   \<and> exact_on_integers exact_numbers
   \<and> all_lovelace_amounts (the (outputs transfer_utxos)) ''addr_test1alice''
       = [\<lparr> unit = ''lovelace'', quantity = ''3000000'' \<rparr>]
   \<and> all_lovelace_amounts (the (inputs transfer_utxos)) ''addr_test1alice''
       = [\<lparr> unit = ''lovelace'', quantity = ''5000000'' \<rparr>]
   \<and> exact_sum (all_lovelace_amounts (the (outputs transfer_utxos)) ''addr_test1alice'') = 3000000
   \<and> exact_sum (all_lovelace_amounts (the (inputs transfer_utxos)) ''addr_test1alice'') = 5000000
   \<and> calculateAccurateTransactionAmount exact_numbers
         (sample_explorer (Inr (ok_response transfer_utxos)))
         ''tx1'' ''addr_test1alice'' preprod = ''2''"
proof -
  let ?outs = "the (outputs transfer_utxos)" and ?ins = "the (inputs transfer_utxos)"
  have h1: "fetchTransactionUTXOs (sample_explorer (Inr (ok_response transfer_utxos))) ''tx1'' preprod
              = Inr transfer_utxos"
    by (simp add: fetchTransactionUTXOs_def sample_explorer_def ok_response_def)
  have h2: "outputs transfer_utxos = Some ?outs"
    and h3: "inputs transfer_utxos = Some ?ins"
    by (simp_all add: transfer_utxos_def)
  have h4: "amounts_present ?outs ''addr_test1alice''"
    by code_simp
  have h5: "amounts_present ?ins ''addr_test1alice''"
    by code_simp
  have h6: "single_lovelace ?outs ''addr_test1alice''"
    by code_simp
  have h7: "single_lovelace ?ins ''addr_test1alice''"
    by code_simp
  have a1: "all_lovelace_amounts ?outs ''addr_test1alice''
              = [\<lparr> unit = ''lovelace'', quantity = ''3000000'' \<rparr>]"
    by code_simp
  have a2: "all_lovelace_amounts ?ins ''addr_test1alice''
              = [\<lparr> unit = ''lovelace'', quantity = ''5000000'' \<rparr>]"
    by code_simp
  have n1: "numeral_quantities (all_lovelace_amounts ?outs ''addr_test1alice'')"
    by code_simp
  have n2: "numeral_quantities (all_lovelace_amounts ?ins ''addr_test1alice'')"
    by code_simp
  have v1: "exact_sum (all_lovelace_amounts ?outs ''addr_test1alice'') = 3000000"
    by code_simp
  have v2: "exact_sum (all_lovelace_amounts ?ins ''addr_test1alice'') = 5000000"
    by code_simp
  have b1: "exact_sum (all_lovelace_amounts ?outs ''addr_test1alice'') < 10 ^ 15"
    and b2: "exact_sum (all_lovelace_amounts ?ins ''addr_test1alice'') < 10 ^ 15"
    unfolding v1 v2 by simp_all
  have v3: "millionths_text (nat \<bar>3000000 - 5000000\<bar>) = ''2''"
    by code_simp
  note inst = net_amount_first_lovelace [where js = exact_numbers, OF h1 h2 h3 h4 h5]
  from inst [THEN conjunct2, THEN conjunct2, THEN conjunct2] h6 h7 exact_numbers_exact n1 n2 b1 b2
  have "calculateAccurateTransactionAmount exact_numbers
          (sample_explorer (Inr (ok_response transfer_utxos))) ''tx1'' ''addr_test1alice'' preprod =
        millionths_text (nat \<bar>exact_sum (all_lovelace_amounts ?outs ''addr_test1alice'')
                              - exact_sum (all_lovelace_amounts ?ins ''addr_test1alice'')\<bar>)"
    by (simp only: simp_thms)
  then have "calculateAccurateTransactionAmount exact_numbers
          (sample_explorer (Inr (ok_response transfer_utxos))) ''tx1'' ''addr_test1alice'' preprod = ''2''"
    by (simp only: v1 v2 v3)
  with h1 h4 h5 h6 h7 exact_numbers_exact a1 a2 v1 v2 show ?thesis by (simp only: simp_thms)
qed

text \<open>
  Claim C1 as stated fails for an output that lists lovelace twice: with exact numbers
  and sums far below \<open>10 ^ 15\<close>, the scan reads 5 ADA where the sum of the lovelace
  quantities at the address is 12 ADA.
\<close>

theorem net_amount_all_lovelace_counterexample:
  "fetchTransactionUTXOs (sample_explorer (Inr (ok_response repeated_lovelace_utxos))) ''tx1'' preprod
     = Inr repeated_lovelace_utxos
   \<and> all_lovelace_amounts (the (outputs repeated_lovelace_utxos)) ''addr_test1alice''
       = [\<lparr> unit = ''lovelace'', quantity = ''5000000'' \<rparr>,
          \<lparr> unit = ''lovelace'', quantity = ''7000000'' \<rparr>]
   \<and> all_lovelace_amounts (the (inputs repeated_lovelace_utxos)) ''addr_test1alice'' = []
   \<and> calculateAccurateTransactionAmount exact_numbers
         (sample_explorer (Inr (ok_response repeated_lovelace_utxos)))
         ''tx1'' ''addr_test1alice'' preprod = ''5''
   \<and> millionths_text
         (nat \<bar>exact_sum (all_lovelace_amounts (the (outputs repeated_lovelace_utxos)) ''addr_test1alice'')
               - exact_sum (all_lovelace_amounts (the (inputs repeated_lovelace_utxos)) ''addr_test1alice'')\<bar>)
       = ''12''
   \<and> calculateAccurateTransactionAmount exact_numbers
         (sample_explorer (Inr (ok_response repeated_lovelace_utxos)))
         ''tx1'' ''addr_test1alice'' preprod
       \<noteq> millionths_text
         (nat \<bar>exact_sum (all_lovelace_amounts (the (outputs repeated_lovelace_utxos)) ''addr_test1alice'')
               - exact_sum (all_lovelace_amounts (the (inputs repeated_lovelace_utxos)) ''addr_test1alice'')\<bar>)"
proof -
  have a: "fetchTransactionUTXOs (sample_explorer (Inr (ok_response repeated_lovelace_utxos))) ''tx1'' preprod
     = Inr repeated_lovelace_utxos"
    by (simp add: fetchTransactionUTXOs_def sample_explorer_def ok_response_def)
  have o: "all_lovelace_amounts (the (outputs repeated_lovelace_utxos)) ''addr_test1alice''
       = [\<lparr> unit = ''lovelace'', quantity = ''5000000'' \<rparr>,
          \<lparr> unit = ''lovelace'', quantity = ''7000000'' \<rparr>]"
    by code_simp
  have i: "all_lovelace_amounts (the (inputs repeated_lovelace_utxos)) ''addr_test1alice'' = []"
    by code_simp
  have b: "calculateAccurateTransactionAmount exact_numbers
         (sample_explorer (Inr (ok_response repeated_lovelace_utxos)))
         ''tx1'' ''addr_test1alice'' preprod = ''5''"
    by code_simp
  have c: "millionths_text
         (nat \<bar>exact_sum [\<lparr> unit = ''lovelace'', quantity = ''5000000'' \<rparr>,
                          \<lparr> unit = ''lovelace'', quantity = ''7000000'' \<rparr>]
               - exact_sum []\<bar>) = ''12''"
    by code_simp
  have d: "''5'' \<noteq> ''12''" by simp
  show ?thesis
    unfolding a o i b c using d by (simp only: simp_thms)
qed

text \<open>
  Claim C6. When fetching the UTXOs raises, or scanning the fetched UTXOs raises,
  \<open>calculateAccurateTransactionAmount\<close> returns the string \<open>0\<close>; and the parse of the
  transaction in \<open>fetchAddressTransactions\<close> is not aborted by it: when the details, the
  metadata and the block height are fetched, the transaction is pushed, with amount \<open>0\<close>.
\<close>

theorem amount_failure_gives_zero:
  assumes failure:
    "fetchTransactionUTXOs ex (tx_hash tx) net = Inl e
     \<or> (\<exists>utxos. fetchTransactionUTXOs ex (tx_hash tx) net = Inr utxos
                 \<and> scan_utxos js utxos addr = Inl e)"
  shows "calculateAccurateTransactionAmount js ex (tx_hash tx) addr net = ''0''
       \<and> (\<forall>details metadata current.
             fetchTransactionDetails ex (tx_hash tx) net = Inr details
             \<and> fetchTransactionMetadata ex (tx_hash tx) net = Inr metadata
             \<and> getCurrentBlockHeight ex net = Inr current
             \<longrightarrow> (\<exists>parsed. parse_transaction js ex addr net tx = Inr parsed
                            \<and> p_amount parsed = ''0''
                            \<and> parse_all js ex addr net [tx] = [parsed]))"
proof -
  from failure have "calculate_try js ex (tx_hash tx) addr net = Inl e"
    by (simp only: calculate_try_cases)
  then have zero: "calculateAccurateTransactionAmount js ex (tx_hash tx) addr net = ''0''"
    by (simp add: calculateAccurateTransactionAmount_def)
  show ?thesis
  proof (intro conjI allI impI)
    show "calculateAccurateTransactionAmount js ex (tx_hash tx) addr net = ''0''"
      by (rule zero)
  next
    fix details metadata current
    assume "fetchTransactionDetails ex (tx_hash tx) net = Inr details
             \<and> fetchTransactionMetadata ex (tx_hash tx) net = Inr metadata
             \<and> getCurrentBlockHeight ex net = Inr current"
    then show "\<exists>parsed. parse_transaction js ex addr net tx = Inr parsed
                            \<and> p_amount parsed = ''0''
                            \<and> parse_all js ex addr net [tx] = [parsed]"
      using zero by (simp add: parse_transaction_def)
  qed
qed

theorem amount_failure_gives_zero_witness:
  "fetchTransactionUTXOs (sample_explorer (Inr (failed_response 500 ''Internal Server Error'')))
       ''tx1'' preprod = Inl (Error ''Failed to fetch transaction UTXOs: 500'')
   \<and> calculateAccurateTransactionAmount exact_numbers
         (sample_explorer (Inr (failed_response 500 ''Internal Server Error'')))
         ''tx1'' ''addr_test1alice'' preprod = ''0''
   \<and> map p_amount (parse_all exact_numbers (sample_explorer (Inr (failed_response 500 ''Internal Server Error'')))
         ''addr_test1alice'' preprod
         [\<lparr> tx_hash = ''tx1'', block_time = 1700000000, block_height = 100 \<rparr>]) = [''0'']"
proof -
  define ex where "ex = sample_explorer (Inr (failed_response 500 ''Internal Server Error''))"
  define tx where "tx = \<lparr> tx_hash = ''tx1'', block_time = 1700000000, block_height = 100 \<rparr>"
  have h: "fetchTransactionUTXOs ex (tx_hash tx) preprod
             = Inl (Error ''Failed to fetch transaction UTXOs: 500'')"
    unfolding ex_def tx_def by code_simp
  have d: "fetchTransactionDetails ex (tx_hash tx) preprod = Inr \<lparr> fees = ''170000'' \<rparr>"
    unfolding ex_def tx_def by code_simp
  have m: "fetchTransactionMetadata ex (tx_hash tx) preprod = Inr []"
    unfolding ex_def tx_def by code_simp
  have c: "getCurrentBlockHeight ex preprod = Inr 130"
    unfolding ex_def tx_def by code_simp
  note inst = amount_failure_gives_zero
                [where js = exact_numbers and ex = ex and tx = tx and net = preprod
                   and addr = "''addr_test1alice''",
                 OF disjI1, OF h]
  from inst [THEN conjunct2, rule_format, OF conjI, OF d conjI, OF m c] obtain parsed where
    "p_amount parsed = ''0''" and "parse_all exact_numbers ex ''addr_test1alice'' preprod [tx] = [parsed]"
    by (elim exE conjE)
  then have "map p_amount (parse_all exact_numbers ex ''addr_test1alice'' preprod [tx]) = [''0'']"
    by simp
  with inst [THEN conjunct1] h show ?thesis
    unfolding ex_def tx_def by simp
qed

text \<open>
  Claim C8. Every transaction that \<open>fetchAddressTransactions\<close> returns has the status
  \<open>success\<close>; a \<open>failed\<close> entry does occur in the mock data.
\<close>

theorem fetched_transactions_success:
  assumes "fetchAddressTransactions js ex addr net page count = Inr txs"
  shows "(\<forall>t \<in> set txs. p_status t = Success)
       \<and> Failed \<in> set (map p_status (getMockTransactions addr currentTime))"
proof -
  from assms obtain transactions where "txs = parse_all js ex addr net transactions"
    by (auto simp: fetchAddressTransactions_def split: sum.splits if_splits)
  then have "\<forall>t \<in> set txs. p_status t = Success"
    by (simp add: parse_all_status)
  moreover have "Failed \<in> set (map p_status (getMockTransactions addr currentTime))"
    by (simp add: getMockTransactions_def)
  ultimately show ?thesis by simp
qed

theorem fetched_transactions_success_witness:
  "map p_status
     (projr (fetchAddressTransactions exact_numbers (sample_explorer (Inr (ok_response transfer_utxos)))
        ''addr_test1alice'' preprod 1 50)) = [Success]
   \<and> \<not> isl (fetchAddressTransactions exact_numbers (sample_explorer (Inr (ok_response transfer_utxos)))
        ''addr_test1alice'' preprod 1 50)"
proof -
  have run: "fetchAddressTransactions exact_numbers (sample_explorer (Inr (ok_response transfer_utxos)))
        ''addr_test1alice'' preprod 1 50 =
      Inr [\<lparr>p_id = ''tx1'', p_hash = ''tx1'', p_timestamp = 1700000000000,
         p_amount = ''2'', p_recipient = Some ''Unknown Recipient'',
         p_sender = Some ''addr_test1alice'', p_message = None,
         p_status = Success, p_fees = ''0.17'', p_network = ''preprod'',
         p_blockHeight = 100, p_confirmations = Some 30,
         p_errorMessage = None\<rparr>]"
    by code_simp
  from fetched_transactions_success [OF run, THEN conjunct1]
  have "map p_status (projr (Inr [\<lparr>p_id = ''tx1'', p_hash = ''tx1'', p_timestamp = 1700000000000,
         p_amount = ''2'', p_recipient = Some ''Unknown Recipient'',
         p_sender = Some ''addr_test1alice'', p_message = None,
         p_status = Success, p_fees = ''0.17'', p_network = ''preprod'',
         p_blockHeight = 100, p_confirmations = Some 30,
         p_errorMessage = None\<rparr>])) = [Success]"
    by simp
  then show ?thesis
    unfolding run by simp
qed

section \<open>Transaction history: results\<close>

lemma splice_100_Cons:
  "splice_100 (x # xs) = x # take 99 xs"
  by (simp add: splice_100_def)

lemma saveTransaction_cases:
  "saveTransaction env net transaction storage =
     (case storage of
        Unusable \<Rightarrow> Unusable
      | Absent \<Rightarrow> History [new_transaction env net transaction]
      | History previous \<Rightarrow> History (new_transaction env net transaction # take 99 previous))"
  by (cases storage) (simp_all add: saveTransaction_def splice_100_Cons)

text \<open>
  Claim C2. Let \<open>newest\<close> be the object built from the saved transaction: its amount,
  recipient, message, status, error message and hash, together with the network, the
  time stamp and the generated id. For every stored history list, \<open>saveTransaction\<close>
  stores \<open>newest\<close> followed by the first 99 previous entries in their order: the new
  transaction is first, the list is never longer than 100, below 100 previous entries all
  are kept, and with 100 previous entries the last (oldest) one is dropped. With nothing
  stored before, the history is \<open>newest\<close> alone.
\<close>

theorem saveTransaction_rolling_history:
  assumes newest:
    "newest = \<lparr> s_id = nat_to_string (now_for_id env) @ random_suffix env,
                s_timestamp = now_for_timestamp env,
                s_network = net,
                s_amount = f_amount transaction,
                s_recipient = f_recipient transaction,
                s_message = f_message transaction,
                s_status = f_status transaction,
                s_errorMessage = f_errorMessage transaction,
                s_txHash = f_txHash transaction \<rparr>"
  shows "saveTransaction env net transaction (History previous) = History (newest # take 99 previous)
       \<and> length (newest # take 99 previous) \<le> 100
       \<and> (length previous < 100 \<longrightarrow>
            saveTransaction env net transaction (History previous) = History (newest # previous))
       \<and> (length previous = 100 \<longrightarrow>
            saveTransaction env net transaction (History previous)
              = History (newest # butlast previous))
       \<and> saveTransaction env net transaction Absent = History [newest]"
proof (intro conjI impI)
  have built: "new_transaction env net transaction = newest"
    unfolding newest by (simp add: new_transaction_def)
  show stored: "saveTransaction env net transaction (History previous)
                  = History (newest # take 99 previous)"
    by (simp add: saveTransaction_cases built)
  show "length (newest # take 99 previous) \<le> 100"
    by simp
  show "saveTransaction env net transaction (History previous) = History (newest # previous)"
    if "length previous < 100"
    using that by (simp add: stored)
  show "saveTransaction env net transaction (History previous) = History (newest # butlast previous)"
    if "length previous = 100"
    using that by (simp add: stored butlast_conv_take)
  show "saveTransaction env net transaction Absent = History [newest]"
    by (simp add: saveTransaction_cases built)
qed

theorem saveTransaction_rolling_history_witness:
  "length (map numbered_entry [0 ..< 100]) = 100
   \<and> saveTransaction sample_env ''preprod'' sample_fields (History (map numbered_entry [0 ..< 100]))
       = History (\<lparr> s_id = ''1700000000000k3j9x0q2a'', s_timestamp = 1700000000000,
                    s_network = ''preprod'', s_amount = ''5'', s_recipient = ''addr_test1qbob'',
                    s_message = Some ''coffee'', s_status = Success, s_errorMessage = None,
                    s_txHash = Some ''hash'' \<rparr>
                  # map numbered_entry [0 ..< 99])
   \<and> saveTransaction sample_env ''preprod'' sample_fields (History [numbered_entry 7])
       = History [\<lparr> s_id = ''1700000000000k3j9x0q2a'', s_timestamp = 1700000000000,
                    s_network = ''preprod'', s_amount = ''5'', s_recipient = ''addr_test1qbob'',
                    s_message = Some ''coffee'', s_status = Success, s_errorMessage = None,
                    s_txHash = Some ''hash'' \<rparr>,
                  numbered_entry 7]"
proof -
  let ?newest = "\<lparr> s_id = ''1700000000000k3j9x0q2a'', s_timestamp = 1700000000000,
                    s_network = ''preprod'', s_amount = ''5'', s_recipient = ''addr_test1qbob'',
                    s_message = Some ''coffee'', s_status = Success, s_errorMessage = None,
                    s_txHash = Some ''hash'' \<rparr>"
  have id_text: "nat_to_string (now_for_id sample_env) @ random_suffix sample_env
                   = ''1700000000000k3j9x0q2a''"
    by code_simp
  have newest: "?newest =
      \<lparr> s_id = nat_to_string (now_for_id sample_env) @ random_suffix sample_env,
        s_timestamp = now_for_timestamp sample_env,
        s_network = ''preprod'',
        s_amount = f_amount sample_fields,
        s_recipient = f_recipient sample_fields,
        s_message = f_message sample_fields,
        s_status = f_status sample_fields,
        s_errorMessage = f_errorMessage sample_fields,
        s_txHash = f_txHash sample_fields \<rparr>"
    unfolding id_text by (simp add: sample_env_def sample_fields_def)
  have len: "length (map numbered_entry [0 ..< 100]) = 100" by simp
  have short: "length [numbered_entry 7] < 100" by simp
  have cut: "butlast (map numbered_entry [0 ..< 100]) = map numbered_entry [0 ..< 99]"
    by (simp add: butlast_conv_take take_map)
  note inst = saveTransaction_rolling_history [OF newest]
  from inst [of "map numbered_entry [0 ..< 100]",
             THEN conjunct2, THEN conjunct2, THEN conjunct2, THEN conjunct1, rule_format, OF len]
  have full: "saveTransaction sample_env ''preprod'' sample_fields
                (History (map numbered_entry [0 ..< 100]))
              = History (?newest # map numbered_entry [0 ..< 99])"
    unfolding cut .
  from inst [of "[numbered_entry 7]",
             THEN conjunct2, THEN conjunct2, THEN conjunct1, rule_format, OF short]
  have one: "saveTransaction sample_env ''preprod'' sample_fields (History [numbered_entry 7])
              = History [?newest, numbered_entry 7]" .
  from len full one show ?thesis by (simp only: simp_thms)
qed

section \<open>Transaction memo: results\<close>

lemma extract_memo_first:
  "m \<noteq> [] \<Longrightarrow> extractMessageFromMetadata (memo_entry m # rest) = Some m"
  by (simp add: memo_entry_def js_truthy_def get_prop_def)

lemma extract_skips_other_labels:
  "\<forall>meta \<in> set before. label meta \<noteq> ''674'' \<Longrightarrow>
     extractMessageFromMetadata (before @ rest) = extractMessageFromMetadata rest"
  by (induction before) simp_all

text \<open>
  Claim C4, amended. For a message whose trimmed text \<open>m\<close> is not empty, the metadata set
  under label 674 at send time is \<open>{"msg": [m]}\<close>, and \<open>extractMessageFromMetadata\<close>
  yields \<open>m\<close> from every metadata list whose first entry labelled \<open>674\<close> carries
  \<open>{"msg": [m]}\<close>; from a list with no entry labelled \<open>674\<close> it yields no message.
\<close>

theorem memo_round_trip:
  assumes "trim message \<noteq> []"
      and "\<forall>meta \<in> set before. label meta \<noteq> ''674''"
  shows "message_metadata message = Some (674, json_metadata (memo_entry (trim message)))
       \<and> json_metadata (memo_entry (trim message))
           = JObject [(''msg'', JArray [JString (trim message)])]
       \<and> extractMessageFromMetadata (before @ memo_entry (trim message) # rest)
           = Some (trim message)
       \<and> extractMessageFromMetadata before = None"
proof (intro conjI)
  show "message_metadata message = Some (674, json_metadata (memo_entry (trim message)))"
    using assms(1) by (simp add: message_metadata_def memo_entry_def)
  show "json_metadata (memo_entry (trim message))
           = JObject [(''msg'', JArray [JString (trim message)])]"
    by (simp add: memo_entry_def)
  show "extractMessageFromMetadata (before @ memo_entry (trim message) # rest)
           = Some (trim message)"
    using extract_skips_other_labels [OF assms(2)] extract_memo_first [OF assms(1)] by simp
  show "extractMessageFromMetadata before = None"
    using extract_skips_other_labels [OF assms(2), of "[]"] by simp
qed

theorem memo_round_trip_witness:
  "trim ''  coffee and lunch '' = ''coffee and lunch''
   \<and> message_metadata ''  coffee and lunch ''
       = Some (674, JObject [(''msg'', JArray [JString ''coffee and lunch''])])
   \<and> extractMessageFromMetadata
        [\<lparr> label = ''721'', json_metadata = JObject [] \<rparr>, memo_entry ''coffee and lunch'']
       = Some ''coffee and lunch''
   \<and> extractMessageFromMetadata [\<lparr> label = ''721'', json_metadata = JObject [] \<rparr>] = None"
proof -
  have t: "trim ''  coffee and lunch '' = ''coffee and lunch''"
    by code_simp
  then have h1: "trim ''  coffee and lunch '' \<noteq> []" by simp
  have h2: "\<forall>meta \<in> set [\<lparr> label = ''721'', json_metadata = JObject [] \<rparr>]. label meta \<noteq> ''674''"
    by simp
  from memo_round_trip [OF h1 h2, of "[]"] t show ?thesis
    by (simp add: memo_entry_def)
qed

text \<open>
  Claim C4 as stated fails when an earlier entry labelled \<open>674\<close> yields a message: the
  list contains the entry for \<open>coffee\<close>, and the result is the earlier text.
\<close>

theorem memo_later_entry_counterexample:
  "memo_entry ''coffee'' \<in> set [\<lparr> label = ''674'', json_metadata = JString ''first'' \<rparr>,
                                  memo_entry ''coffee'']
   \<and> extractMessageFromMetadata [\<lparr> label = ''674'', json_metadata = JString ''first'' \<rparr>,
                                  memo_entry ''coffee''] = Some ''first''
   \<and> extractMessageFromMetadata [\<lparr> label = ''674'', json_metadata = JString ''first'' \<rparr>,
                                  memo_entry ''coffee''] \<noteq> Some ''coffee''"
  by (simp add: memo_entry_def js_truthy_def get_prop_def)

section \<open>Sending: results\<close>

text \<open>
  The \<open>try\<close> block raises exactly on the failures listed by \<open>send_error\<close>, with the
  error given there. When it raises, it has stored nothing, and a call of \<open>submitTx\<close>
  among the wallet calls it made is the call that raised.
\<close>

lemma error_try_raises:
  "send_error js w net form = Some e \<Longrightarrow>
     \<exists>st'. sendAda_try js env w net form st = (Inl e, st')
          \<and> history st' = history st
          \<and> (\<exists>made. wallet_calls st' = wallet_calls st @ made
                    \<and> (\<forall>signedTx. SubmitTx signedTx \<in> set made \<longrightarrow> submitTx w signedTx = Inl e))
          \<and> txHash_state st' = []
          \<and> recipientAddress st' = recipientAddress st
          \<and> sendAmount st' = sendAmount st
          \<and> sendMessage st' = sendMessage st
          \<and> refresh_scheduled st' = refresh_scheduled st"
  unfolding send_error_def sendAda_try_def Let_def
  by (auto split: if_splits sum.splits option.splits)

lemma no_error_try_returns:
  "send_error js w net form = None \<Longrightarrow>
     \<exists>st'. sendAda_try js env w net form st = (Inr (), st') \<and> sendStatus st' = ''success''"
  unfolding send_error_def sendAda_try_def Let_def
  by (auto split: if_splits sum.splits option.splits)

lemma display_message_derived: "display_message e = derive_errorMessage e"
  by (cases e) (simp_all add: display_message_def derive_errorMessage_def Let_def)

text \<open>
  Sample runs: a recipient of the wrong network, an amount of 0, a declined signature, a
  submission that raises, and a send that goes through.
\<close>

lemma sendAda_wrong_prefix_example:
  "sendStatus (sendAda exact_numbers sample_env (Some funded_wallet) ''preprod''
                 (sample_form \<lparr> recipientAddress := ''addr1qbob'' \<rparr>))
     = ''Error: Invalid preprod address format. Address must start with ''
       @ [CHR 0x22] @ ''addr_test1'' @ [CHR 0x22]"
  "wallet_calls (sendAda exact_numbers sample_env (Some funded_wallet) ''preprod''
                   (sample_form \<lparr> recipientAddress := ''addr1qbob'' \<rparr>)) = []"
  by code_simp+

lemma sendAda_zero_amount_example:
  "sendStatus (sendAda exact_numbers sample_env (Some funded_wallet) ''preprod''
                 (sample_form \<lparr> sendAmount := ''0'' \<rparr>))
     = ''Error: Amount must be greater than 0''"
  "wallet_calls (sendAda exact_numbers sample_env (Some funded_wallet) ''preprod''
                   (sample_form \<lparr> sendAmount := ''0'' \<rparr>)) = []"
  by code_simp+

lemma sendAda_declined_example:
  "sendStatus (sendAda exact_numbers sample_env (Some declining_wallet) ''preprod'' sample_form)
     = ''Error: Transaction was cancelled by user.''"
  "wallet_calls (sendAda exact_numbers sample_env (Some declining_wallet) ''preprod'' sample_form)
     = [GetBalance,
        Build \<lparr> to_address = ''addr_test1qbob'', lovelace = ''5000000'',
                 metadata = Some (674, JObject [(''msg'', JArray [JString ''coffee''])]) \<rparr>,
        SignTx ''unsigned'']"
  "map s_errorMessage
     (case history (sendAda exact_numbers sample_env (Some declining_wallet) ''preprod'' sample_form) of
        History saved \<Rightarrow> saved | _ \<Rightarrow> [])
     = [Some ''Transaction was cancelled by user.'']"
  by code_simp+

lemma sendAda_submit_raises_example:
  "sendStatus (sendAda exact_numbers sample_env (Some unreachable_wallet) ''preprod'' sample_form)
     = ''Error: Transaction failed''"
  "last (wallet_calls (sendAda exact_numbers sample_env (Some unreachable_wallet) ''preprod''
                         sample_form)) = SubmitTx ''signed''"
  "map s_status
     (case history (sendAda exact_numbers sample_env (Some unreachable_wallet) ''preprod'' sample_form) of
        History saved \<Rightarrow> saved | _ \<Rightarrow> [])
     = [Failed]"
  by code_simp+

lemma sendAda_success_example:
  "send_error exact_numbers funded_wallet ''preprod'' sample_form = None"
  "sendStatus (sendAda exact_numbers sample_env (Some funded_wallet) ''preprod'' sample_form)
     = ''success''"
  "txHash_state (sendAda exact_numbers sample_env (Some funded_wallet) ''preprod'' sample_form)
     = ''hash''"
  "history (sendAda exact_numbers sample_env (Some funded_wallet) ''preprod'' sample_form)
     = History [\<lparr> s_id = ''1700000000000k3j9x0q2a'', s_timestamp = 1700000000000,
                    s_network = ''preprod'', s_amount = ''5'', s_recipient = ''addr_test1qbob'',
                    s_message = Some ''coffee'', s_status = Success, s_errorMessage = None,
                    s_txHash = Some ''hash'' \<rparr>]"
  "sendAmount (sendAda exact_numbers sample_env (Some funded_wallet) ''preprod'' sample_form) = []"
  by code_simp+

text \<open>
  Claim C5, amended. Let \<open>e\<close> be the error of a failure of \<open>sendAda\<close>, \<open>final\<close> the
  state that \<open>sendAda\<close> leaves, and \<open>failed\<close> the object with the form's amount, recipient
  and message, the status \<open>failed\<close>, the display message of \<open>e\<close> as its error message and
  no hash. Then the function ends normally and

  \<^item> \<open>sendStatus\<close> is \<open>Error:\<close>, a space and the display message of \<open>e\<close>;
  \<^item> when no history was stored, the history is \<open>failed\<close> alone; when a list was stored,
    it is \<open>failed\<close> followed by the first 99 previous entries; when the stored item is
    unusable, it stays as it is and nothing is saved;
  \<^item> a call of \<open>submitTx\<close> that was made is the call that raised \<open>e\<close>, so no submission
    has returned;
  \<^item> the loading state is over, no hash is shown and the form keeps its fields.
\<close>

theorem sendAda_failure_handled:
  assumes recipient: "recipientAddress st \<noteq> []"
      and amount_given: "sendAmount st \<noteq> []"
      and failure: "send_error js w net st = Some e"
      and final: "final = sendAda js env (Some w) net st"
      and failed:
        "failed = \<lparr> s_id = nat_to_string (now_for_id env) @ random_suffix env,
                    s_timestamp = now_for_timestamp env,
                    s_network = net,
                    s_amount = sendAmount st,
                    s_recipient = recipientAddress st,
                    s_message = (if sendMessage st \<noteq> [] then Some (sendMessage st) else None),
                    s_status = Failed,
                    s_errorMessage = Some (display_message e),
                    s_txHash = None \<rparr>"
  shows "sendStatus final = ''Error: '' @ display_message e
       \<and> startsWith (sendStatus final) ''Error:''
       \<and> (history st = Absent \<longrightarrow> history final = History [failed])
       \<and> (\<forall>previous. history st = History previous \<longrightarrow>
             history final = History (failed # take 99 previous))
       \<and> (history st = Unusable \<longrightarrow> history final = Unusable)
       \<and> (\<exists>made. wallet_calls final = wallet_calls st @ made
                 \<and> (\<forall>signedTx. SubmitTx signedTx \<in> set made \<longrightarrow> submitTx w signedTx = Inl e))
       \<and> \<not> sendLoading final
       \<and> txHash_state final = []
       \<and> recipientAddress final = recipientAddress st
       \<and> sendAmount final = sendAmount st
       \<and> sendMessage final = sendMessage st"
proof -
  from error_try_raises [OF failure, of env st] obtain st' where
    raised: "sendAda_try js env w net st st = (Inl e, st')"
    and kept: "history st' = history st"
    and calls: "\<exists>made. wallet_calls st' = wallet_calls st @ made
                  \<and> (\<forall>signedTx. SubmitTx signedTx \<in> set made \<longrightarrow> submitTx w signedTx = Inl e)"
    and hash: "txHash_state st' = []"
    and form: "recipientAddress st' = recipientAddress st" "sendAmount st' = sendAmount st"
              "sendMessage st' = sendMessage st"
    by blast
  have run: "final = (sendAda_catch env net st e st') \<lparr> sendLoading := False \<rparr>"
    unfolding final using recipient amount_given raised by (simp add: sendAda_def)
  have built: "new_transaction env net
                 \<lparr> f_amount = sendAmount st, f_recipient = recipientAddress st,
                   f_message = or_undefined (sendMessage st), f_status = Failed,
                   f_errorMessage = Some (derive_errorMessage e), f_txHash = None \<rparr> = failed"
    unfolding failed by (simp add: new_transaction_def or_undefined_def display_message_derived)
  have status: "sendStatus final = ''Error: '' @ display_message e"
    by (simp add: run sendAda_catch_def Let_def display_message_derived)
  have "''Error: '' @ display_message e = ''Error:'' @ ('' '' @ display_message e)"
    by simp
  then have starts: "startsWith (sendStatus final) ''Error:''"
    unfolding status by (simp only: startsWith_append)
  have hist: "history final =
                (case history st of
                   Unusable \<Rightarrow> Unusable
                 | Absent \<Rightarrow> History [failed]
                 | History previous \<Rightarrow> History (failed # take 99 previous))"
    by (cases "history st")
       (simp_all add: run sendAda_catch_def Let_def kept saveTransaction_cases built)
  have made: "\<exists>made. wallet_calls final = wallet_calls st @ made
                 \<and> (\<forall>signedTx. SubmitTx signedTx \<in> set made \<longrightarrow> submitTx w signedTx = Inl e)"
    using calls by (simp add: run sendAda_catch_def Let_def)
  show ?thesis
  proof (intro conjI allI impI)
    show "sendStatus final = ''Error: '' @ display_message e" by (rule status)
    show "startsWith (sendStatus final) ''Error:''" by (rule starts)
    show "history final = History [failed]" if "history st = Absent"
      using that by (simp add: hist)
    show "history final = History (failed # take 99 previous)" if "history st = History previous"
      for previous using that by (simp add: hist)
    show "history final = Unusable" if "history st = Unusable"
      using that by (simp add: hist)
    show "\<exists>made. wallet_calls final = wallet_calls st @ made
                 \<and> (\<forall>signedTx. SubmitTx signedTx \<in> set made \<longrightarrow> submitTx w signedTx = Inl e)"
      by (rule made)
    show "\<not> sendLoading final" by (simp add: run)
    show "txHash_state final = []" by (simp add: run sendAda_catch_def Let_def hash)
    show "recipientAddress final = recipientAddress st"
      by (simp add: run sendAda_catch_def Let_def form)
    show "sendAmount final = sendAmount st"
      by (simp add: run sendAda_catch_def Let_def form)
    show "sendMessage final = sendMessage st"
      by (simp add: run sendAda_catch_def Let_def form)
  qed
qed

theorem sendAda_failure_handled_witness:
  "recipientAddress sample_form \<noteq> [] \<and> sendAmount sample_form \<noteq> []
   \<and> history sample_form = Absent
   \<and> send_error exact_numbers poor_wallet ''preprod'' sample_form
       = Some (Error ''Insufficient balance. You have 1.000000 ADA, but need at least 7.000000 ADA (including ~2 ADA for fees)'')
   \<and> sendStatus (sendAda exact_numbers sample_env (Some poor_wallet) ''preprod'' sample_form)
       = ''Error: Insufficient balance. You have 1.000000 ADA, but need at least 7.000000 ADA (including ~2 ADA for fees)''
   \<and> history (sendAda exact_numbers sample_env (Some poor_wallet) ''preprod'' sample_form)
       = History [\<lparr> s_id = ''1700000000000k3j9x0q2a'', s_timestamp = 1700000000000,
                    s_network = ''preprod'', s_amount = ''5'', s_recipient = ''addr_test1qbob'',
                    s_message = Some ''coffee'', s_status = Failed,
                    s_errorMessage = Some ''Insufficient balance. You have 1.000000 ADA, but need at least 7.000000 ADA (including ~2 ADA for fees)'',
                    s_txHash = None \<rparr>]
   \<and> \<not> sendLoading (sendAda exact_numbers sample_env (Some poor_wallet) ''preprod'' sample_form)"
proof -
  let ?m = "''Insufficient balance. You have 1.000000 ADA, but need at least 7.000000 ADA (including ~2 ADA for fees)''"
  let ?failed = "\<lparr> s_id = ''1700000000000k3j9x0q2a'', s_timestamp = 1700000000000,
                    s_network = ''preprod'', s_amount = ''5'', s_recipient = ''addr_test1qbob'',
                    s_message = Some ''coffee'', s_status = Failed,
                    s_errorMessage = Some ?m, s_txHash = None \<rparr>"
  have h1: "recipientAddress sample_form \<noteq> []" and h2: "sendAmount sample_form \<noteq> []"
    and h0: "history sample_form = Absent"
    by (simp_all add: sample_form_def)
  have h3: "send_error exact_numbers poor_wallet ''preprod'' sample_form = Some (Error ?m)"
    by code_simp
  have shown: "display_message (Error ?m) = ?m"
    by code_simp
  have id_text: "nat_to_string (now_for_id sample_env) @ random_suffix sample_env
                   = ''1700000000000k3j9x0q2a''"
    by code_simp
  have h5: "?failed =
      \<lparr> s_id = nat_to_string (now_for_id sample_env) @ random_suffix sample_env,
        s_timestamp = now_for_timestamp sample_env,
        s_network = ''preprod'',
        s_amount = sendAmount sample_form,
        s_recipient = recipientAddress sample_form,
        s_message = (if sendMessage sample_form \<noteq> [] then Some (sendMessage sample_form) else None),
        s_status = Failed,
        s_errorMessage = Some (display_message (Error ?m)),
        s_txHash = None \<rparr>"
    unfolding id_text shown by (simp add: sample_env_def sample_form_def)
  note inst = sendAda_failure_handled [OF h1 h2 h3 refl h5]
  from inst [THEN conjunct1]
  have a: "sendStatus (sendAda exact_numbers sample_env (Some poor_wallet) ''preprod'' sample_form)
             = ''Error: '' @ ?m"
    unfolding shown .
  from inst [THEN conjunct2, THEN conjunct2, THEN conjunct1, rule_format, OF h0]
  have b: "history (sendAda exact_numbers sample_env (Some poor_wallet) ''preprod'' sample_form)
             = History [?failed]" .
  from inst [THEN conjunct2, THEN conjunct2, THEN conjunct2, THEN conjunct2, THEN conjunct2,
             THEN conjunct2, THEN conjunct1]
  have c: "\<not> sendLoading (sendAda exact_numbers sample_env (Some poor_wallet) ''preprod'' sample_form)" .
  from h1 h2 h0 h3 a b c show ?thesis by simp
qed

text \<open>
  Claim C5 as stated fails when the stored history cannot be used (the item is not the
  JSON text of an array): the send fails for lack of balance, the error is displayed, and
  no record of the failed transaction is saved.
\<close>

theorem failed_send_not_saved_counterexample:
  "send_error exact_numbers poor_wallet ''preprod'' (sample_form \<lparr> history := Unusable \<rparr>)
     = Some (Error ''Insufficient balance. You have 1.000000 ADA, but need at least 7.000000 ADA (including ~2 ADA for fees)'')
   \<and> sendStatus (sendAda exact_numbers sample_env (Some poor_wallet) ''preprod''
                   (sample_form \<lparr> history := Unusable \<rparr>))
       = ''Error: Insufficient balance. You have 1.000000 ADA, but need at least 7.000000 ADA (including ~2 ADA for fees)''
   \<and> history (sendAda exact_numbers sample_env (Some poor_wallet) ''preprod''
                (sample_form \<lparr> history := Unusable \<rparr>)) = Unusable
   \<and> wallet_calls (sendAda exact_numbers sample_env (Some poor_wallet) ''preprod''
                     (sample_form \<lparr> history := Unusable \<rparr>)) = [GetBalance]"
proof (intro conjI)
  show "send_error exact_numbers poor_wallet ''preprod'' (sample_form \<lparr> history := Unusable \<rparr>)
     = Some (Error ''Insufficient balance. You have 1.000000 ADA, but need at least 7.000000 ADA (including ~2 ADA for fees)'')"
    by code_simp
  show "sendStatus (sendAda exact_numbers sample_env (Some poor_wallet) ''preprod''
                   (sample_form \<lparr> history := Unusable \<rparr>))
       = ''Error: Insufficient balance. You have 1.000000 ADA, but need at least 7.000000 ADA (including ~2 ADA for fees)''"
    by code_simp
  show "history (sendAda exact_numbers sample_env (Some poor_wallet) ''preprod''
                (sample_form \<lparr> history := Unusable \<rparr>)) = Unusable"
    by code_simp
  show "wallet_calls (sendAda exact_numbers sample_env (Some poor_wallet) ''preprod''
                     (sample_form \<lparr> history := Unusable \<rparr>)) = [GetBalance]"
    by code_simp
qed

section \<open>Mock fallback: results\<close>

lemma isBlockfrostAvailable_iff:
  "isBlockfrostAvailable preprodKey \<longleftrightarrow>
     (\<exists>k rest. preprodKey = Some k \<and> k \<noteq> ''preprod_mock'' \<and> k = ''preprod'' @ rest)"
proof (cases preprodKey)
  case None
  then show ?thesis by (simp add: isBlockfrostAvailable_def truthy_str_def)
next
  case (Some k)
  have "startsWith k ''preprod'' \<longleftrightarrow> (\<exists>rest. k = ''preprod'' @ rest)"
  proof
    assume "startsWith k ''preprod''"
    moreover have "length ''preprod'' = 7"
      by simp
    ultimately have t: "take 7 k = ''preprod''"
      unfolding startsWith_def by (simp only:)
    have "take 7 k @ drop 7 k = k"
      by (rule append_take_drop_id)
    then have "''preprod'' @ drop 7 k = k"
      by (simp only: t)
    then have "k = ''preprod'' @ drop 7 k"
      by (rule sym)
    then show "\<exists>rest. k = ''preprod'' @ rest" ..
  next
    assume "\<exists>rest. k = ''preprod'' @ rest"
    then obtain rest where "k = ''preprod'' @ rest" ..
    then show "startsWith k ''preprod''"
      by (simp only: startsWith_append)
  qed
  moreover have "startsWith k ''preprod'' \<Longrightarrow> k \<noteq> []"
    by (auto simp: startsWith_def)
  ultimately show ?thesis
    using Some by (auto simp: isBlockfrostAvailable_def truthy_str_def)
qed

text \<open>
  Claim C7. \<open>isBlockfrostAvailable\<close> holds exactly when the key is set, is not
  \<open>preprod_mock\<close> and starts with \<open>preprod\<close>. When it does not hold, the transactions
  of the dashboard are the mock transactions, whatever the explorer would answer; when
  it holds, they are the transactions fetched from the explorer.
\<close>

theorem mock_fallback_by_key:
  "(isBlockfrostAvailable preprodKey \<longleftrightarrow>
      (\<exists>k rest. preprodKey = Some k \<and> k \<noteq> ''preprod_mock'' \<and> k = ''preprod'' @ rest))
   \<and> (\<not> isBlockfrostAvailable preprodKey \<and> walletAddress \<noteq> [] \<longrightarrow>
         fetchBlockchainTransactions js preprodKey ex currentTime walletAddress st =
           st \<lparr> transactions := map to_transaction (getMockTransactions walletAddress currentTime),
                loading := False, dashboard_error := [] \<rparr>)
   \<and> (isBlockfrostAvailable preprodKey \<and> walletAddress \<noteq> []
        \<and> fetchAddressTransactions js ex walletAddress preprod 1 50 = Inr fetchedTxs \<longrightarrow>
         fetchBlockchainTransactions js preprodKey ex currentTime walletAddress st =
           st \<lparr> transactions := map to_transaction fetchedTxs,
                loading := False, dashboard_error := [] \<rparr>)"
proof (intro conjI impI)
  show "isBlockfrostAvailable preprodKey \<longleftrightarrow>
      (\<exists>k rest. preprodKey = Some k \<and> k \<noteq> ''preprod_mock'' \<and> k = ''preprod'' @ rest)"
    by (rule isBlockfrostAvailable_iff)
next
  assume "\<not> isBlockfrostAvailable preprodKey \<and> walletAddress \<noteq> []"
  then show "fetchBlockchainTransactions js preprodKey ex currentTime walletAddress st =
           st \<lparr> transactions := map to_transaction (getMockTransactions walletAddress currentTime),
                loading := False, dashboard_error := [] \<rparr>"
    by (simp add: fetchBlockchainTransactions_def)
next
  assume "isBlockfrostAvailable preprodKey \<and> walletAddress \<noteq> []
        \<and> fetchAddressTransactions js ex walletAddress preprod 1 50 = Inr fetchedTxs"
  then show "fetchBlockchainTransactions js preprodKey ex currentTime walletAddress st =
           st \<lparr> transactions := map to_transaction fetchedTxs,
                loading := False, dashboard_error := [] \<rparr>"
    by (simp add: fetchBlockchainTransactions_def)
qed

theorem mock_fallback_by_key_witness:
  "\<not> isBlockfrostAvailable (Some ''preprod_mock'')
   \<and> isBlockfrostAvailable (Some ''preprodAbC123'')
   \<and> map d_id (transactions (fetchBlockchainTransactions exact_numbers (Some ''preprod_mock'')
         (sample_explorer (Inl NonError)) 1700000000000 ''addr_test1alice'' empty_dashboard))
      = map p_hash (getMockTransactions ''addr_test1alice'' 1700000000000)
   \<and> map d_id (transactions (fetchBlockchainTransactions exact_numbers (Some ''preprodAbC123'')
         (sample_explorer (Inl NonError)) 1700000000000 ''addr_test1alice'' empty_dashboard))
      = [''tx1'']"
proof -
  have off: "\<not> isBlockfrostAvailable (Some ''preprod_mock'')"
    and on: "isBlockfrostAvailable (Some ''preprodAbC123'')"
    by (simp_all add: isBlockfrostAvailable_def truthy_str_def startsWith_def)
  have addr: "''addr_test1alice'' \<noteq> []" by simp
  have fetched: "fetchAddressTransactions exact_numbers (sample_explorer (Inl NonError)) ''addr_test1alice'' preprod 1 50
     = Inr [\<lparr>p_id = ''tx1'', p_hash = ''tx1'', p_timestamp = 1700000000000,
         p_amount = ''0'', p_recipient = Some ''Unknown Recipient'',
         p_sender = Some ''addr_test1alice'', p_message = None,
         p_status = Success, p_fees = ''0.17'', p_network = ''preprod'',
         p_blockHeight = 100, p_confirmations = Some 30,
         p_errorMessage = None\<rparr>]"
    by code_simp
  note inst = mock_fallback_by_key
                [where js = exact_numbers and ex = "sample_explorer (Inl NonError)"
                   and currentTime = 1700000000000
                   and walletAddress = "''addr_test1alice''" and st = empty_dashboard]
  from inst [where preprodKey = "Some ''preprod_mock''", THEN conjunct2, THEN conjunct1] off addr
  have a: "fetchBlockchainTransactions exact_numbers (Some ''preprod_mock'')
         (sample_explorer (Inl NonError)) 1700000000000 ''addr_test1alice'' empty_dashboard
       = empty_dashboard \<lparr> transactions :=
             map to_transaction (getMockTransactions ''addr_test1alice'' 1700000000000),
           loading := False, dashboard_error := [] \<rparr>"
    by (simp only: simp_thms)
  from inst [where preprodKey = "Some ''preprodAbC123''", THEN conjunct2, THEN conjunct2,
             rule_format, OF conjI, OF on conjI, OF addr fetched]
  have b: "map d_id (transactions (fetchBlockchainTransactions exact_numbers (Some ''preprodAbC123'')
         (sample_explorer (Inl NonError)) 1700000000000 ''addr_test1alice'' empty_dashboard))
      = [''tx1'']"
    by (simp add: to_transaction_def)
  have c: "map d_id (transactions (fetchBlockchainTransactions exact_numbers (Some ''preprod_mock'')
         (sample_explorer (Inl NonError)) 1700000000000 ''addr_test1alice'' empty_dashboard))
      = map p_hash (getMockTransactions ''addr_test1alice'' 1700000000000)"
    unfolding a by (simp add: to_transaction_def comp_def)
  from off on b c show ?thesis by (simp only: simp_thms)
qed

section \<open>Provider discovery: results\<close>

lemma push_if_empty_check: "push_if (length xs = 0) x xs \<noteq> []"
  by (simp add: push_if_def)

text \<open>
  Claim C9. \<open>getAvailableProviders\<close> returns a non-empty list for every configuration;
  with no key set the list is the default \<open>[''openai'']\<close>; hence
  \<open>isAICategorationAvailable\<close> is true for every configuration, the one without keys
  included.
\<close>

theorem providers_never_empty:
  "getAvailableProviders env \<noteq> []
   \<and> getAvailableProviders no_keys = [''openai'']
   \<and> isAICategorationAvailable env
   \<and> isAICategorationAvailable no_keys"
proof -
  have ne: "getAvailableProviders e \<noteq> []" for e
    unfolding getAvailableProviders_def Let_def by (rule push_if_empty_check)
  have dflt: "getAvailableProviders no_keys = [''openai'']"
    by (simp add: getAvailableProviders_def no_keys_def push_if_def truthy_str_def)
  have av: "isAICategorationAvailable e" for e
    using ne [of e] by (simp add: isAICategorationAvailable_def)
  from ne dflt av show ?thesis by blast
qed

end
